theory Spec2Isabelle
  imports Main "HOL-Library.Code_Target_Nat"
begin

section \<open>Data model (types.ts)\<close>

text \<open>
  \<^verbatim>\<open>QuestionOption { text: string; value: string }\<close>. The two fields are renamed
  \<open>o_text\<close> and \<open>o_value\<close>.
\<close>

record QuestionOption =
  o_text :: string
  o_value :: string

text \<open>\<^verbatim>\<open>type: 'scale' | 'choice'\<close> and \<^verbatim>\<open>variation?: 'single' | 'most_least'\<close>.\<close>

datatype qtype = Scale | Choice

datatype variation = Single | Most_least

record Question =
  q_id :: string
  q_text :: string
  category :: "string option"
  qtype :: qtype
  options :: "QuestionOption list option"
  variation :: "variation option"

record Test =
  t_id :: string
  title :: string
  description :: string
  questions :: "Question list"
  active :: bool

datatype status = Pending | In_progress | Completed

text \<open>
  The \<^verbatim>\<open>Candidate\<close> interface, without the optional \<^verbatim>\<open>password\<close>, which no code
  in the repository reads or writes.
\<close>

record Candidate =
  c_id :: string
  c_name :: string
  c_email :: string
  c_status :: status
  assignedTestId :: "string option"
  score :: "int option"
  completedDate :: "string option"

section \<open>The backend's \<^verbatim>\<open>profiles\<close> table\<close>

text \<open>
  A row of \<^verbatim>\<open>profiles\<close>, with the columns the code reads: name, email, role, status,
  assigned test, score and completion date. An \<^verbatim>\<open>update({...}).eq('id', id)\<close> names
  the columns it sets; the backend sets those columns in the rows with that id and leaves
  every other column and row as it is.
\<close>

record profile_row =
  p_name :: string
  p_email :: "string option"
  p_role :: string
  p_status :: status
  p_assigned_test_id :: "string option"
  p_score :: "int option"
  p_completed_date :: "string option"

datatype column_update =
  Set_name string
  | Set_email "string option"
  | Set_role string
  | Set_status status
  | Set_assigned_test_id "string option"
  | Set_score "int option"
  | Set_completed_date "string option"

fun set_column :: "profile_row \<Rightarrow> column_update \<Rightarrow> profile_row" where
  "set_column r (Set_name v) = r\<lparr>p_name := v\<rparr>"
| "set_column r (Set_email v) = r\<lparr>p_email := v\<rparr>"
| "set_column r (Set_role v) = r\<lparr>p_role := v\<rparr>"
| "set_column r (Set_status v) = r\<lparr>p_status := v\<rparr>"
| "set_column r (Set_assigned_test_id v) = r\<lparr>p_assigned_test_id := v\<rparr>"
| "set_column r (Set_score v) = r\<lparr>p_score := v\<rparr>"
| "set_column r (Set_completed_date v) = r\<lparr>p_completed_date := v\<rparr>"

type_synonym profiles = "string \<rightharpoonup> profile_row"

definition apply_update :: "profiles \<Rightarrow> string \<Rightarrow> column_update list \<Rightarrow> profiles" where
  "apply_update tbl rid cols =
     (case tbl rid of None \<Rightarrow> tbl | Some r \<Rightarrow> tbl(rid \<mapsto> foldl set_column r cols))"

section \<open>Candidate questionnaire runner (CandidateView)\<close>

subsection \<open>Answers\<close>

text \<open>
  The answers state is a \<^verbatim>\<open>Record<string, any>\<close>. The handlers store two shapes in
  it: \<^verbatim>\<open>{ text, value }\<close> (scale and single choice) and \<^verbatim>\<open>{ most, least }\<close>, where
  either side may be \<^verbatim>\<open>undefined\<close>. Reading a field that the shape does not have gives
  \<^verbatim>\<open>undefined\<close>, which is \<open>None\<close> here.
\<close>

datatype answer =
  Chosen QuestionOption
  | MostLeast "QuestionOption option" "QuestionOption option"

fun ans_most :: "answer \<Rightarrow> QuestionOption option" where
  "ans_most (Chosen _) = None"
| "ans_most (MostLeast m _) = m"

fun ans_least :: "answer \<Rightarrow> QuestionOption option" where
  "ans_least (Chosen _) = None"
| "ans_least (MostLeast _ l) = l"

fun ans_text :: "answer \<Rightarrow> string option" where
  "ans_text (Chosen opt) = Some (o_text opt)"
| "ans_text (MostLeast _ _) = None"

type_synonym answers = "string \<rightharpoonup> answer"

text \<open>\<^verbatim>\<open>val.toString()\<close> for the five buttons \<^verbatim>\<open>[1, 2, 3, 4, 5]\<close> of a scale question.\<close>

datatype scale_val = V1 | V2 | V3 | V4 | V5

fun toString :: "scale_val \<Rightarrow> string" where
  "toString V1 = ''1''"
| "toString V2 = ''2''"
| "toString V3 = ''3''"
| "toString V4 = ''4''"
| "toString V5 = ''5''"

definition handleScaleAnswer :: "string \<Rightarrow> scale_val \<Rightarrow> answers \<Rightarrow> answers" where
  "handleScaleAnswer questionId val prev =
     prev(questionId \<mapsto> Chosen \<lparr>o_text = toString val, o_value = toString val\<rparr>)"

definition handleSingleChoice :: "string \<Rightarrow> QuestionOption \<Rightarrow> answers \<Rightarrow> answers" where
  "handleSingleChoice questionId option prev =
     prev(questionId \<mapsto> Chosen \<lparr>o_text = o_text option, o_value = o_value option\<rparr>)"

datatype ml_type = Most | Least

text \<open>
  \<^verbatim>\<open>newLeast?.text === option.text\<close>: the optional chain gives \<^verbatim>\<open>undefined\<close> when the
  side is \<^verbatim>\<open>undefined\<close>, and \<^verbatim>\<open>undefined\<close> is never \<^verbatim>\<open>===\<close> to a string.
\<close>

definition same_text :: "QuestionOption option \<Rightarrow> QuestionOption \<Rightarrow> bool" where
  "same_text side option =
     (case side of None \<Rightarrow> False | Some x \<Rightarrow> o_text x = o_text option)"

text \<open>
  \<^verbatim>\<open>prev[questionId] || {}\<close>: an answer is an object, hence truthy; the empty object
  has neither side.
\<close>

definition currentAnswer :: "answers \<Rightarrow> string \<Rightarrow> answer" where
  "currentAnswer prev questionId =
     (case prev questionId of None \<Rightarrow> MostLeast None None | Some a \<Rightarrow> a)"

definition handleMostLeast ::
  "string \<Rightarrow> ml_type \<Rightarrow> QuestionOption \<Rightarrow> answers \<Rightarrow> answers" where
  "handleMostLeast questionId type option prev =
     (let newMost = ans_most (currentAnswer prev questionId);
          newLeast = ans_least (currentAnswer prev questionId)
      in if type = Most
         then prev(questionId \<mapsto>
                MostLeast (Some option) (if same_text newLeast option then None else newLeast))
         else prev(questionId \<mapsto>
                MostLeast (if same_text newMost option then None else newMost) (Some option)))"

subsection \<open>The completion predicate\<close>

text \<open>
  A JavaScript exception is a value of the model. \<open>TypeError\<close> is a property read on
  \<^verbatim>\<open>undefined\<close> or \<^verbatim>\<open>null\<close>, or a call of what is not a function; \<open>SyntaxError\<close>
  is thrown by \<^verbatim>\<open>JSON.parse\<close>; the other constructors are the errors that
  \<^verbatim>\<open>submitTest\<close> throws itself or rethrows from the backend client.
\<close>

datatype js_error =
  TypeError
  | SyntaxError
  | Test_not_found
  | Empty_test
  | Webhook_failed
  | Backend_error string

text \<open>
  \<^verbatim>\<open>canProceed\<close> returns a JavaScript value that the button's \<^verbatim>\<open>disabled\<close> attribute
  negates: \<^verbatim>\<open>ans.most && ans.least && ...\<close> is \<^verbatim>\<open>undefined\<close> when a side is missing
  and a boolean otherwise.
\<close>

datatype js_bool = JS_undefined | JS_boolean bool

fun truthy :: "js_bool \<Rightarrow> bool" where
  "truthy JS_undefined = False"
| "truthy (JS_boolean b) = b"

definition nth_question :: "Question list \<Rightarrow> nat \<Rightarrow> Question option" where
  "nth_question qs i = (if i < length qs then Some (qs ! i) else None)"

definition canProceed :: "Test option \<Rightarrow> nat \<Rightarrow> answers \<Rightarrow> js_error + js_bool" where
  "canProceed test currentStep answers =
     (case test of
        None \<Rightarrow> Inr (JS_boolean False)
      | Some t \<Rightarrow>
         (case nth_question (questions t) currentStep of
            None \<Rightarrow> Inl TypeError
          | Some q \<Rightarrow>
             (case answers (q_id q) of
                None \<Rightarrow> Inr (JS_boolean False)
              | Some ans \<Rightarrow>
                 if qtype q = Scale then Inr (JS_boolean True)
                 else if qtype q = Choice then
                   (if variation q = Some Most_least then
                      (case ans_most ans of
                         None \<Rightarrow> Inr JS_undefined
                       | Some m \<Rightarrow>
                          (case ans_least ans of
                             None \<Rightarrow> Inr JS_undefined
                           | Some l \<Rightarrow> Inr (JS_boolean (o_text m \<noteq> o_text l))))
                    else Inr (JS_boolean (ans_text ans \<noteq> None \<and> ans_text ans \<noteq> Some [])))
                 else Inr (JS_boolean False))))"

subsection \<open>Component state and rendering\<close>

text \<open>
  The \<^verbatim>\<open>error\<close> state is a message string, empty when there is none; every message
  that the component stores is non-empty, so the model keeps which message it is and
  \<open>None\<close> is the empty string.
\<close>

datatype ui_error =
  No_test_assigned
  | Test_inactive
  | Load_failed js_error
  | Submit_failed js_error

record cv_state =
  loading :: bool
  error :: "ui_error option"
  candidateName :: string
  candidateEmail :: string
  test :: "Test option"
  alreadyTaken :: bool
  currentStep :: nat
  answers :: answers
  isSubmitting :: bool
  isCompleted :: bool
  hasSubmittedRef :: bool

text \<open>
  The chain of early returns at the head of the render function. Past them the
  question flow reads \<^verbatim>\<open>test.questions[currentStep]\<close> and its properties, which is a
  TypeError when the step is not an index of the list (also for an empty list).
\<close>

datatype screen =
  Loading_screen
  | Already_taken_screen
  | Error_screen
  | Completed_screen
  | Question_flow

definition render :: "cv_state \<Rightarrow> js_error + screen" where
  "render s =
     (if loading s then Inr Loading_screen
      else if alreadyTaken s then Inr Already_taken_screen
      else
        (case test s of
           None \<Rightarrow> Inr Error_screen
         | Some t \<Rightarrow>
            if error s \<noteq> None then Inr Error_screen
            else if isCompleted s then Inr Completed_screen
            else
              (case nth_question (questions t) (currentStep s) of
                 None \<Rightarrow> Inl TypeError
               | Some currentQuestion \<Rightarrow> Inr Question_flow)))"

subsection \<open>Requests to the outside\<close>

text \<open>
  One entry of the webhook payload's \<^verbatim>\<open>body\<close>: the question's own fields and
  \<^verbatim>\<open>resposta\<close>, which is \<^verbatim>\<open>undefined\<close> (\<open>None\<close>) when no answer was recorded for a
  scale or single-choice question.
\<close>

record payload_entry =
  e_id :: string
  e_text :: string
  e_category :: "string option"
  e_type :: qtype
  e_options :: "QuestionOption list option"
  e_variation :: "variation option"
  resposta :: "answer option"

record payload =
  test_id :: string
  test_title :: string
  test_description :: string
  candidate_id :: string
  candidate_email :: string
  body :: "payload_entry list"

text \<open>
  The requests this repository sends to the outside, each with what identifies it here.
  On \<^verbatim>\<open>profiles\<close>: the select of one row (\<^verbatim>\<open>loadSession\<close>), the list selects
  (roster, admin roster, dashboard) and the update of the named columns of one row
  (\<^verbatim>\<open>submitTest\<close>, \<^verbatim>\<open>handleSave\<close>). On \<^verbatim>\<open>tests\<close>: the select of one row, the list
  selects, and the test builder's update and insert. On \<^verbatim>\<open>result_test\<close>: the list
  select. To the authentication service: the sign-up (email, password, and the metadata
  name, role and assigned test), the sign-in, the sign-out and the session read. To the
  webhook: the post of the payload. \<open>Schedule_onComplete\<close> is the
  \<^verbatim>\<open>setTimeout(onComplete, 4000)\<close> after a successful submission.
\<close>

datatype request =
  Select_profile string
  | Select_test string
  | Select_rows string
  | Update_profile string "column_update list"
  | Update_test string
  | Insert_test
  | Sign_up string string string string "string option"
  | Sign_in string
  | Sign_out
  | Get_session
  | Webhook_post payload
  | Schedule_onComplete

text \<open>
  \<^verbatim>\<open>fetch\<close> rejects when the request cannot be delivered (a network failure) and
  resolves with the response otherwise, whatever its HTTP status; the component does not
  read the response.
\<close>

datatype fetch_outcome = Rejected | Resolved nat

text \<open>
  A row of \<^verbatim>\<open>tests\<close>: the \<^verbatim>\<open>questions\<close> column arrives either as JSON text or
  as the list itself.
\<close>

datatype questions_column = Questions_text string | Questions_list "Question list"

record test_row =
  r_id :: string
  r_title :: string
  r_description :: string
  r_questions :: questions_column
  r_active :: bool

text \<open>
  The world outside the component: what the two selects answer, what
  \<^verbatim>\<open>JSON.parse\<close> followed by the unchecked cast \<^verbatim>\<open>as Test\<close> makes of a questions
  text (\<open>None\<close> when it throws), what \<^verbatim>\<open>fetch\<close> does with a payload, what the profile
  update answers (\<open>Some\<close> is its \<^verbatim>\<open>error\<close>), and the UTC date
  \<^verbatim>\<open>new Date().toISOString().split('T')[0]\<close>.
\<close>

record world =
  select_profile :: "string \<Rightarrow> string + profile_row"
  select_test :: "string \<Rightarrow> string + test_row"
  parse_questions :: "string \<Rightarrow> Question list option"
  webhook :: "payload \<Rightarrow> fetch_outcome"
  update_profile :: "string \<Rightarrow> column_update list \<Rightarrow> string option"
  today :: string

subsection \<open>loadSession\<close>

text \<open>
  The body of the \<^verbatim>\<open>try\<close> block: the requests sent, the state reached, and whether
  it ended by an exception. \<^verbatim>\<open>profile.email || ''\<close> turns a null or empty email into
  the empty string; \<^verbatim>\<open>!profile.assigned_test_id\<close> holds for null and for the empty
  string.
\<close>

definition loadSession_try ::
  "world \<Rightarrow> string \<Rightarrow> cv_state \<Rightarrow> request list \<times> cv_state \<times> js_error option" where
  "loadSession_try w candidateId s =
     (case select_profile w candidateId of
        Inl profileError \<Rightarrow> ([Select_profile candidateId], s, Some (Backend_error profileError))
      | Inr profile \<Rightarrow>
         (let s1 = s\<lparr>candidateName := p_name profile,
                     candidateEmail := (case p_email profile of None \<Rightarrow> [] | Some e \<Rightarrow> e)\<rparr>
          in if p_status profile = Completed \<or> p_status profile = In_progress
             then ([Select_profile candidateId],
                   s1\<lparr>alreadyTaken := True, loading := False\<rparr>, None)
             else if p_assigned_test_id profile = None \<or> p_assigned_test_id profile = Some []
             then ([Select_profile candidateId],
                   s1\<lparr>error := Some No_test_assigned, loading := False\<rparr>, None)
             else
               (let reqs = [Select_profile candidateId,
                            Select_test (the (p_assigned_test_id profile))]
                in case select_test w (the (p_assigned_test_id profile)) of
                     Inl testError \<Rightarrow> (reqs, s1, Some (Backend_error testError))
                   | Inr testData \<Rightarrow>
                      if \<not> r_active testData
                      then (reqs, s1\<lparr>error := Some Test_inactive, loading := False\<rparr>, None)
                      else
                        (case (case r_questions testData of
                                 Questions_text txt \<Rightarrow> parse_questions w txt
                               | Questions_list qs \<Rightarrow> Some qs) of
                           None \<Rightarrow> (reqs, s1, Some SyntaxError)
                         | Some qs \<Rightarrow>
                            (reqs,
                             s1\<lparr>test := Some \<lparr>t_id = r_id testData, title = r_title testData,
                                   description = r_description testData, questions = qs,
                                   active = r_active testData\<rparr>\<rparr>,
                             None)))))"

text \<open>
  \<^verbatim>\<open>setLoading(true)\<close>, the \<^verbatim>\<open>try\<close> block, the \<^verbatim>\<open>catch\<close> that stores the
  message, and the \<^verbatim>\<open>finally\<close> that clears \<^verbatim>\<open>loading\<close> on every path.
\<close>

definition loadSession :: "world \<Rightarrow> string \<Rightarrow> cv_state \<Rightarrow> cv_state \<times> request list" where
  "loadSession w candidateId s =
     (case loadSession_try w candidateId (s\<lparr>loading := True\<rparr>) of
        (reqs, s', None) \<Rightarrow> (s'\<lparr>loading := False\<rparr>, reqs)
      | (reqs, s', Some err) \<Rightarrow> (s'\<lparr>error := Some (Load_failed err), loading := False\<rparr>, reqs))"

subsection \<open>submitTest\<close>

text \<open>
  The mapping over \<^verbatim>\<open>test.questions\<close>. For a most/least question the code reads
  \<^verbatim>\<open>userAnswer.most\<close>, which throws a TypeError when no answer was recorded.
\<close>

definition build_entry :: "answers \<Rightarrow> Question \<Rightarrow> js_error + payload_entry" where
  "build_entry ans q =
     (let userAnswer = ans (q_id q);
          qObj = \<lparr>e_id = q_id q, e_text = q_text q, e_category = category q,
                  e_type = qtype q, e_options = options q, e_variation = variation q,
                  resposta = None\<rparr>
      in if qtype q = Scale then Inr (qObj\<lparr>resposta := userAnswer\<rparr>)
         else if qtype q = Choice then
           (if variation q = Some Most_least then
              (case userAnswer of
                 None \<Rightarrow> Inl TypeError
               | Some a \<Rightarrow> Inr (qObj\<lparr>resposta := Some (MostLeast (ans_most a) (ans_least a))\<rparr>))
            else Inr (qObj\<lparr>resposta := userAnswer\<rparr>))
         else Inr qObj)"

fun questionsList :: "answers \<Rightarrow> Question list \<Rightarrow> js_error + payload_entry list" where
  "questionsList ans [] = Inr []"
| "questionsList ans (q # qs) =
     (case build_entry ans q of
        Inl e \<Rightarrow> Inl e
      | Inr qObj \<Rightarrow>
         (case questionsList ans qs of
            Inl e \<Rightarrow> Inl e
          | Inr rest \<Rightarrow> Inr (qObj # rest)))"

definition finalPayload :: "Test \<Rightarrow> string \<Rightarrow> string \<Rightarrow> payload_entry list \<Rightarrow> payload" where
  "finalPayload t candidateId email qsList =
     \<lparr>test_id = t_id t, test_title = title t, test_description = description t,
      candidate_id = candidateId, candidate_email = email, body = qsList\<rparr>"

text \<open>
  The columns of the profile update:
  \<^verbatim>\<open>{ status: 'completed', completed_date: new Date().toISOString().split('T')[0] }\<close>.
\<close>

definition completed_update :: "world \<Rightarrow> column_update list" where
  "completed_update w = [Set_status Completed, Set_completed_date (Some (today w))]"

text \<open>
  The body of the \<^verbatim>\<open>try\<close> block of \<^verbatim>\<open>submitTest\<close>: the requests sent and the
  exception, if any, that ended it.
\<close>

definition submitTest_try ::
  "world \<Rightarrow> string \<Rightarrow> cv_state \<Rightarrow> request list \<times> js_error option" where
  "submitTest_try w candidateId s =
     (case test s of
        None \<Rightarrow> ([], Some Test_not_found)
      | Some t \<Rightarrow>
         (case questionsList (answers s) (questions t) of
            Inl e \<Rightarrow> ([], Some e)
          | Inr qs \<Rightarrow>
             if qs = [] then ([], Some Empty_test)
             else
               (let p = finalPayload t candidateId (candidateEmail s) qs
                in case webhook w p of
                     Rejected \<Rightarrow> ([Webhook_post p], Some Webhook_failed)
                   | Resolved _ \<Rightarrow>
                      (case update_profile w candidateId (completed_update w) of
                         Some profileError \<Rightarrow>
                           ([Webhook_post p, Update_profile candidateId (completed_update w)],
                            Some (Backend_error profileError))
                       | None \<Rightarrow>
                           ([Webhook_post p, Update_profile candidateId (completed_update w),
                             Schedule_onComplete], None)))))"

text \<open>
  The latch, the \<^verbatim>\<open>try\<close> block, the \<^verbatim>\<open>catch\<close> that stores the message and
  releases the latch, and the \<^verbatim>\<open>finally\<close> that clears \<^verbatim>\<open>isSubmitting\<close>.
\<close>

definition submitTest :: "world \<Rightarrow> string \<Rightarrow> cv_state \<Rightarrow> cv_state \<times> request list" where
  "submitTest w candidateId s =
     (if hasSubmittedRef s then (s, [])
      else
        (let s1 = s\<lparr>hasSubmittedRef := True, isSubmitting := True\<rparr>
         in case submitTest_try w candidateId s1 of
              (reqs, None) \<Rightarrow> (s1\<lparr>isCompleted := True, isSubmitting := False\<rparr>, reqs)
            | (reqs, Some err) \<Rightarrow>
                (s1\<lparr>error := Some (Submit_failed err), hasSubmittedRef := False,
                    isSubmitting := False\<rparr>, reqs)))"

subsection \<open>handleNext and the button that calls it\<close>

text \<open>
  \<^verbatim>\<open>currentStep < test.questions.length - 1\<close> is a comparison of JavaScript numbers:
  the right-hand side is \<open>-1\<close> for an empty list.
\<close>

definition handleNext :: "world \<Rightarrow> string \<Rightarrow> cv_state \<Rightarrow> cv_state \<times> request list" where
  "handleNext w candidateId s =
     (case test s of
        None \<Rightarrow> (s, [])
      | Some t \<Rightarrow>
         if int (currentStep s) < int (length (questions t)) - 1
         then (s\<lparr>currentStep := currentStep s + 1\<rparr>, [])
         else submitTest w candidateId s)"

text \<open>
  The button's \<^verbatim>\<open>disabled={!canProceed() || isSubmitting || hasSubmittedRef.current}\<close>;
  a disabled button does not call its \<^verbatim>\<open>onClick\<close>.
\<close>

definition next_disabled :: "cv_state \<Rightarrow> js_error + bool" where
  "next_disabled s =
     (case canProceed (test s) (currentStep s) (answers s) of
        Inl e \<Rightarrow> Inl e
      | Inr v \<Rightarrow> Inr (\<not> truthy v \<or> isSubmitting s \<or> hasSubmittedRef s))"

definition click_next :: "world \<Rightarrow> string \<Rightarrow> cv_state \<Rightarrow> cv_state \<times> request list" where
  "click_next w candidateId s =
     (if next_disabled s = Inr False then handleNext w candidateId s else (s, []))"

text \<open>
  The completion predicate as the specification describes it: a scale question requires
  a recorded answer, a single-choice question a selected option (one whose text is not
  empty), a most/least question a "most" and a "least" selection with different texts.
\<close>

definition completion_predicate :: "Question \<Rightarrow> answer option \<Rightarrow> bool" where
  "completion_predicate q a =
     (case qtype q of
        Scale \<Rightarrow> a \<noteq> None
      | Choice \<Rightarrow>
         if variation q = Some Most_least
         then (case a of
                 Some (MostLeast (Some m) (Some l)) \<Rightarrow> o_text m \<noteq> o_text l
               | _ \<Rightarrow> False)
         else (case a of Some (Chosen opt) \<Rightarrow> o_text opt \<noteq> [] | _ \<Rightarrow> False))"

text \<open>
  A delivery that succeeds as the specification describes it ("the webhook call returns
  success"): the endpoint answers, and with a success status, 200 to 299 (the
  \<^verbatim>\<open>ok\<close> of the response). The component computes nothing of the kind: it awaits
  \<^verbatim>\<open>fetch\<close> and drops the response.
\<close>

definition delivery_succeeds :: "fetch_outcome \<Rightarrow> bool" where
  "delivery_succeeds outcome =
     (case outcome of Rejected \<Rightarrow> False | Resolved code \<Rightarrow> 200 \<le> code \<and> code \<le> 299)"

section \<open>Admin candidate roster (CandidatesList)\<close>

record formData =
  f_name :: string
  f_email :: string
  f_password :: string
  f_testId :: string

text \<open>
  The message that \<^verbatim>\<open>handleSave\<close> stores in \<^verbatim>\<open>errorMsg\<close>: two fixed translations,
  the backend's own message, the default, and the notice after a sign-up that returned
  no user. \<open>None\<close> is the empty string.
\<close>

datatype save_message =
  Msg_already_registered
  | Msg_rls_recursion
  | Msg_raw string
  | Msg_save_failed
  | Msg_user_created

record cl_state =
  candidates :: "Candidate list"
  editingId :: "string option"
  formData :: formData
  cl_isSubmitting :: bool
  errorMsg :: "save_message option"
  showModal :: bool

text \<open>\<^verbatim>\<open>String.prototype.includes\<close>.\<close>

fun includes_js :: "string \<Rightarrow> string \<Rightarrow> bool" where
  "includes_js [] sub = (sub = [])"
| "includes_js (c # cs) sub = (take (length sub) (c # cs) = sub \<or> includes_js cs sub)"

text \<open>
  The \<^verbatim>\<open>catch\<close> block. A backend error is kept by its \<^verbatim>\<open>message\<close>, the empty
  string when it has none: \<^verbatim>\<open>error.message?.includes(...)\<close> and
  \<^verbatim>\<open>error.message || '...'\<close> treat a missing message and an empty one alike.
\<close>

definition save_error_message :: "string \<Rightarrow> save_message" where
  "save_error_message msg =
     (if includes_js msg ''User already registered'' then Msg_already_registered
      else if includes_js msg ''recursion'' then Msg_rls_recursion
      else if msg \<noteq> [] then Msg_raw msg
      else Msg_save_failed)"

text \<open>
  What the backend answers to \<^verbatim>\<open>handleSave\<close>: the \<^verbatim>\<open>error\<close> of the profile
  update, and for the sign-up either an error or \<^verbatim>\<open>data.user\<close>'s id, if there is a
  user.
\<close>

record admin_world =
  aw_update_profile :: "string \<Rightarrow> column_update list \<Rightarrow> string option"
  aw_sign_up :: "formData \<Rightarrow> string + string option"

text \<open>\<^verbatim>\<open>formData.testId || null\<close>.\<close>

definition testId_or_null :: "formData \<Rightarrow> string option" where
  "testId_or_null fd = (if f_testId fd = [] then None else Some (f_testId fd))"

text \<open>The columns of the candidate edit.\<close>

definition edit_update :: "formData \<Rightarrow> column_update list" where
  "edit_update fd = [Set_name (f_name fd), Set_assigned_test_id (testId_or_null fd)]"

text \<open>
  The body of the \<^verbatim>\<open>try\<close> block of \<^verbatim>\<open>handleSave\<close>. \<^verbatim>\<open>if (editingId)\<close> holds
  for a non-empty id.
\<close>

definition handleSave_try ::
  "admin_world \<Rightarrow> cl_state \<Rightarrow> request list \<times> cl_state \<times> string option" where
  "handleSave_try aw s =
     (let fd = formData s in
      if editingId s \<noteq> None \<and> editingId s \<noteq> Some []
      then
        (let eid = the (editingId s)
         in case aw_update_profile aw eid (edit_update fd) of
              Some err \<Rightarrow> ([Update_profile eid (edit_update fd)], s, Some err)
            | None \<Rightarrow>
                ([Update_profile eid (edit_update fd)],
                 s\<lparr>candidates :=
                      map (\<lambda>c. if c_id c = eid
                                then c\<lparr>c_name := f_name fd, assignedTestId := Some (f_testId fd)\<rparr>
                                else c)
                        (candidates s),
                    showModal := False\<rparr>,
                 None))
      else
        (let req = Sign_up (f_email fd) (f_password fd) (f_name fd) ''candidate''
                     (testId_or_null fd)
         in case aw_sign_up aw fd of
              Inl err \<Rightarrow> ([req], s, Some err)
            | Inr (Some uid) \<Rightarrow>
                ([req],
                 s\<lparr>candidates :=
                      \<lparr>c_id = uid, c_name = f_name fd, c_email = f_email fd,
                       c_status = Pending, assignedTestId = Some (f_testId fd),
                       score = None, completedDate = None\<rparr> # candidates s,
                    showModal := False\<rparr>,
                 None)
            | Inr None \<Rightarrow>
                ([req], s\<lparr>errorMsg := Some Msg_user_created, showModal := False\<rparr>, None)))"

definition handleSave :: "admin_world \<Rightarrow> cl_state \<Rightarrow> cl_state \<times> request list" where
  "handleSave aw s =
     (case handleSave_try aw (s\<lparr>cl_isSubmitting := True, errorMsg := None\<rparr>) of
        (reqs, s', None) \<Rightarrow> (s'\<lparr>cl_isSubmitting := False\<rparr>, reqs)
      | (reqs, s', Some err) \<Rightarrow>
          (s'\<lparr>errorMsg := Some (save_error_message err), cl_isSubmitting := False\<rparr>, reqs))"

text \<open>
  What a request does to the rows of the \<^verbatim>\<open>profiles\<close> table. The only request that
  writes to the table is the update; the row that a sign-up leads to is added by the
  backend, and no request removes a row.
\<close>

fun apply_request :: "profiles \<Rightarrow> request \<Rightarrow> profiles" where
  "apply_request tbl (Update_profile rid cols) = apply_update tbl rid cols"
| "apply_request tbl _ = tbl"

section \<open>JSON values and the built-ins \<^verbatim>\<open>JSON.parse\<close> and \<^verbatim>\<open>JSON.stringify\<close>\<close>

text \<open>
  \<^verbatim>\<open>safeParseJSON\<close> calls the built-in \<^verbatim>\<open>JSON.parse\<close>, so the built-in is part of
  the model: a parser of the JSON grammar (ECMA-404), as ECMAScript's \<^verbatim>\<open>JSON.parse\<close>
  without a reviver applies it.

  A JavaScript string is a list of UTF-16 code units, kept as natural numbers; \<open>js\<close>
  turns an ASCII literal into such a list.
\<close>

type_synonym jstring = "nat list"

definition js :: "string \<Rightarrow> jstring" where
  "js s = map of_char s"

text \<open>
  The values \<^verbatim>\<open>JSON.parse\<close> can return, which are also the values a column of the
  backend holds. A number is kept as its numeral: the double that the numeral denotes
  (floating point) is not computed. An object is the list of its properties in the order
  in which they were defined.
\<close>

datatype json =
  JNull
  | JBool bool
  | JNum jstring
  | JStr jstring
  | JArr "json list"
  | JObj "(jstring \<times> json) list"

subsection \<open>Lexical level\<close>

text \<open>JSON white space: tab, line feed, carriage return, space.\<close>

definition is_ws :: "nat \<Rightarrow> bool" where
  "is_ws c = (c = 9 \<or> c = 10 \<or> c = 13 \<or> c = 32)"

definition skip_ws :: "jstring \<Rightarrow> jstring" where
  "skip_ws s = dropWhile is_ws s"

definition is_digit :: "nat \<Rightarrow> bool" where
  "is_digit c = (48 \<le> c \<and> c \<le> 57)"

text \<open>The value of a hexadecimal digit, of either case.\<close>

definition hexval :: "nat \<Rightarrow> nat option" where
  "hexval c =
     (if 48 \<le> c \<and> c \<le> 57 then Some (c - 48)
      else if 97 \<le> c \<and> c \<le> 102 then Some (c - 87)
      else if 65 \<le> c \<and> c \<le> 70 then Some (c - 55)
      else None)"

definition hex4 :: "nat \<Rightarrow> nat \<Rightarrow> nat \<Rightarrow> nat \<Rightarrow> nat option" where
  "hex4 a b c d =
     (case (hexval a, hexval b, hexval c, hexval d) of
        (Some x, Some y, Some z, Some w) \<Rightarrow> Some (4096 * x + 256 * y + 16 * z + w)
      | _ \<Rightarrow> None)"

text \<open>
  The character after a backslash: the quote, the backslash, the slash, and the letters
  b, f, n, r and t.
\<close>

definition unescape :: "nat \<Rightarrow> nat option" where
  "unescape e =
     (if e = 34 then Some 34
      else if e = 92 then Some 92
      else if e = 47 then Some 47
      else if e = 98 then Some 8
      else if e = 102 then Some 12
      else if e = 110 then Some 10
      else if e = 114 then Some 13
      else if e = 116 then Some 9
      else None)"

text \<open>
  One character of a string literal, escaped or not, and the text after it. A control
  character (below \<open>0x20\<close>) must be escaped.
\<close>

definition next_unit :: "jstring \<Rightarrow> (nat \<times> jstring) option" where
  "next_unit s =
     (case s of
        [] \<Rightarrow> None
      | c # cs \<Rightarrow>
         if c = 92 then
           (case cs of
              [] \<Rightarrow> None
            | e # es \<Rightarrow>
               if e = 117 then
                 (case es of
                    h1 # h2 # h3 # h4 # rest \<Rightarrow>
                      (case hex4 h1 h2 h3 h4 of None \<Rightarrow> None | Some u \<Rightarrow> Some (u, rest))
                  | _ \<Rightarrow> None)
               else (case unescape e of None \<Rightarrow> None | Some u \<Rightarrow> Some (u, es)))
         else if c < 32 then None
         else Some (c, cs))"

lemma next_unit_shrinks: "next_unit s = Some (u, r) \<Longrightarrow> length r < length s"
  by (auto simp: next_unit_def split: list.splits if_splits option.splits)

definition cons_unit :: "nat \<Rightarrow> (jstring \<times> jstring) option \<Rightarrow> (jstring \<times> jstring) option" where
  "cons_unit u res = (case res of None \<Rightarrow> None | Some (t, r) \<Rightarrow> Some (u # t, r))"

text \<open>
  The characters of a string literal after its opening quote, up to the closing quote:
  the decoded string and the text after the closing quote.
\<close>

function string_body :: "jstring \<Rightarrow> (jstring \<times> jstring) option" where
  "string_body s =
     (case s of
        [] \<Rightarrow> None
      | c # cs \<Rightarrow>
         if c = 34 then Some ([], cs)
         else (case next_unit s of
                 None \<Rightarrow> None
               | Some (u, r) \<Rightarrow> cons_unit u (string_body r)))"
  by pat_completeness auto
termination
  by (relation "measure length") (auto dest: next_unit_shrinks)

declare string_body.simps [simp del]

lemma cons_unit_Some:
  "cons_unit u res = Some (t, r) \<longleftrightarrow> (\<exists>t'. res = Some (t', r) \<and> t = u # t')"
  by (auto simp: cons_unit_def split: option.splits)

lemma string_body_shrinks:
  "string_body s = Some (t, r) \<Longrightarrow> length t + length r < length s"
proof (induction s arbitrary: t rule: string_body.induct)
  case (1 s)
  show ?case
  proof (cases s)
    case Nil
    with "1.prems" show ?thesis by (simp add: string_body.simps)
  next
    case (Cons c cs)
    show ?thesis
    proof (cases "c = 34")
      case True
      with Cons "1.prems" show ?thesis by (simp add: string_body.simps)
    next
      case False
      from "1.prems" have "(case next_unit s of None \<Rightarrow> None
           | Some (u, r) \<Rightarrow> cons_unit u (string_body r)) = Some (t, r)"
        by (subst (asm) string_body.simps) (simp add: Cons False)
      then obtain u r' t' where
        nu: "next_unit s = Some (u, r')" and sb: "string_body r' = Some (t', r)" and t: "t = u # t'"
        by (auto simp: cons_unit_Some split: option.splits)
      from "1.IH" [OF Cons False nu refl sb] have "length t' + length r < length r'" .
      moreover from nu have "length r' < length s" by (rule next_unit_shrinks)
      ultimately show ?thesis using t by simp
    qed
  qed
qed

text \<open>
  \<^verbatim>\<open>QuoteJSONString\<close>, as \<^verbatim>\<open>JSON.stringify\<close> writes a string: the quote, the
  backslash and the control characters are escaped, a surrogate pair is written as it is,
  and a lone surrogate is escaped (well-formed \<^verbatim>\<open>JSON.stringify\<close>).
\<close>

definition hexdigit :: "nat \<Rightarrow> nat" where
  "hexdigit n = (if n < 10 then 48 + n else 87 + n)"

definition hex4_of :: "nat \<Rightarrow> jstring" where
  "hex4_of c =
     [hexdigit (c div 4096 mod 16), hexdigit (c div 256 mod 16), hexdigit (c div 16 mod 16),
      hexdigit (c mod 16)]"

definition is_high :: "nat \<Rightarrow> bool" where
  "is_high c = (55296 \<le> c \<and> c \<le> 56319)"

definition is_low :: "nat \<Rightarrow> bool" where
  "is_low c = (56320 \<le> c \<and> c \<le> 57343)"

definition escape_unit :: "nat \<Rightarrow> jstring" where
  "escape_unit c =
     (if c = 34 then [92, 34]
      else if c = 92 then [92, 92]
      else if c = 8 then [92, 98]
      else if c = 12 then [92, 102]
      else if c = 10 then [92, 110]
      else if c = 13 then [92, 114]
      else if c = 9 then [92, 116]
      else if c < 32 \<or> is_high c \<or> is_low c then [92, 117] @ hex4_of c
      else [c])"

fun quote_body :: "jstring \<Rightarrow> jstring" where
  "quote_body [] = []"
| "quote_body [c] = escape_unit c"
| "quote_body (c # d # cs) =
     (if is_high c \<and> is_low d then c # d # quote_body cs
      else escape_unit c @ quote_body (d # cs))"

definition QuoteJSONString :: "jstring \<Rightarrow> jstring" where
  "QuoteJSONString s = 34 # quote_body s @ [34]"

text \<open>
  A number token: an optional minus, an integer part without leading zeros, an optional
  fraction, an optional exponent. Each scanner returns the part it read and the text
  after it.
\<close>

definition scan_int :: "jstring \<Rightarrow> (jstring \<times> jstring) option" where
  "scan_int s =
     (case s of
        [] \<Rightarrow> None
      | d # ds \<Rightarrow>
         if d = 48 then Some ([48], ds)
         else if is_digit d then Some (d # takeWhile is_digit ds, dropWhile is_digit ds)
         else None)"

definition scan_frac :: "jstring \<Rightarrow> (jstring \<times> jstring) option" where
  "scan_frac s =
     (case s of
        [] \<Rightarrow> Some ([], [])
      | c # cs \<Rightarrow>
         if c = 46 then
           (if takeWhile is_digit cs = [] then None
            else Some (46 # takeWhile is_digit cs, dropWhile is_digit cs))
         else Some ([], s))"

definition scan_sign :: "jstring \<Rightarrow> jstring \<times> jstring" where
  "scan_sign s =
     (case s of
        [] \<Rightarrow> ([], [])
      | g # gs \<Rightarrow> if g = 43 \<or> g = 45 then ([g], gs) else ([], s))"

definition scan_exp :: "jstring \<Rightarrow> (jstring \<times> jstring) option" where
  "scan_exp s =
     (case s of
        [] \<Rightarrow> Some ([], [])
      | c # cs \<Rightarrow>
         if c = 101 \<or> c = 69 then
           (case scan_sign cs of
              (sign, ds) \<Rightarrow>
                if takeWhile is_digit ds = [] then None
                else Some (c # sign @ takeWhile is_digit ds, dropWhile is_digit ds))
         else Some ([], s))"

definition scan_minus :: "jstring \<Rightarrow> jstring \<times> jstring" where
  "scan_minus s =
     (case s of
        [] \<Rightarrow> ([], [])
      | c # cs \<Rightarrow> if c = 45 then ([45], cs) else ([], s))"

definition scan_number :: "jstring \<Rightarrow> (jstring \<times> jstring) option" where
  "scan_number s =
     (case scan_minus s of
        (sign, s0) \<Rightarrow>
          (case scan_int s0 of
             None \<Rightarrow> None
           | Some (i, s1) \<Rightarrow>
              (case scan_frac s1 of
                 None \<Rightarrow> None
               | Some (f, s2) \<Rightarrow>
                  (case scan_exp s2 of
                     None \<Rightarrow> None
                   | Some (e, s3) \<Rightarrow> Some (sign @ i @ f @ e, s3)))))"

text \<open>The literals \<^verbatim>\<open>true\<close>, \<^verbatim>\<open>false\<close> and \<^verbatim>\<open>null\<close>.\<close>

definition scan_literal :: "jstring \<Rightarrow> (json \<times> jstring) option" where
  "scan_literal s =
     (if take 4 s = [116, 114, 117, 101] then Some (JBool True, drop 4 s)
      else if take 5 s = [102, 97, 108, 115, 101] then Some (JBool False, drop 5 s)
      else if take 4 s = [110, 117, 108, 108] then Some (JNull, drop 4 s)
      else None)"

text \<open>
  Defining a property: a key that is already there keeps its place and takes the new
  value (the last duplicate of a key wins), a new key goes to the end.
\<close>

fun set_property :: "('k \<times> 'v) list \<Rightarrow> 'k \<Rightarrow> 'v \<Rightarrow> ('k \<times> 'v) list" where
  "set_property [] k v = [(k, v)]"
| "set_property ((k', v') # ps) k v =
     (if k' = k then (k, v) # ps else (k', v') # set_property ps k v)"

lemma skip_ws_shrinks: "skip_ws s = c # cs \<Longrightarrow> length cs < length s"
proof -
  assume a: "skip_ws s = c # cs"
  have "length (skip_ws s) \<le> length s"
    by (simp add: skip_ws_def length_dropWhile_le)
  with a show ?thesis by simp
qed

lemma string_body_rest_shorter: "string_body s = Some (t, r) \<Longrightarrow> length r < length s"
  using string_body_shrinks [of s t r] by simp

subsection \<open>The parser\<close>

text \<open>
  Recursive descent over the text; each function returns the value and the text after it.
  \<open>parse_elements\<close> reads the elements of an array after its opening bracket and
  \<open>parse_members\<close> the members of an object after its opening brace, both with the
  values read so far. The tests \<open>length r < length s\<close> make the recursion well-founded
  by themselves; \<open>parse_shrinks\<close> below shows that they always hold.
\<close>

function parse_value :: "jstring \<Rightarrow> (json \<times> jstring) option"
  and parse_elements :: "json list \<Rightarrow> jstring \<Rightarrow> (json \<times> jstring) option"
  and parse_members :: "(jstring \<times> json) list \<Rightarrow> jstring \<Rightarrow> (json \<times> jstring) option"
where
  "parse_value s =
     (case skip_ws s of
        [] \<Rightarrow> None
      | c # cs \<Rightarrow>
         if c = 123 then
           (case skip_ws cs of
              [] \<Rightarrow> None
            | d # ds \<Rightarrow> if d = 125 then Some (JObj [], ds) else parse_members [] (d # ds))
         else if c = 91 then
           (case skip_ws cs of
              [] \<Rightarrow> None
            | d # ds \<Rightarrow> if d = 93 then Some (JArr [], ds) else parse_elements [] (d # ds))
         else if c = 34 then
           (case string_body cs of None \<Rightarrow> None | Some (t, r) \<Rightarrow> Some (JStr t, r))
         else if c = 45 \<or> is_digit c then
           (case scan_number (c # cs) of None \<Rightarrow> None | Some (tok, r) \<Rightarrow> Some (JNum tok, r))
         else scan_literal (c # cs))"
| "parse_elements acc s =
     (case parse_value s of
        None \<Rightarrow> None
      | Some (v, r) \<Rightarrow>
         if length r < length s then
           (case skip_ws r of
              [] \<Rightarrow> None
            | d # ds \<Rightarrow>
               if d = 44 then parse_elements (acc @ [v]) ds
               else if d = 93 then Some (JArr (acc @ [v]), ds)
               else None)
         else None)"
| "parse_members acc s =
     (case skip_ws s of
        [] \<Rightarrow> None
      | q # s1 \<Rightarrow>
         if q = 34 then
           (case string_body s1 of
              None \<Rightarrow> None
            | Some (k, s2) \<Rightarrow>
               (case skip_ws s2 of
                  [] \<Rightarrow> None
                | c # s3 \<Rightarrow>
                   if c = 58 then
                     (case parse_value s3 of
                        None \<Rightarrow> None
                      | Some (v, r) \<Rightarrow>
                         if length r < length s3 then
                           (case skip_ws r of
                              [] \<Rightarrow> None
                            | d # ds \<Rightarrow>
                               if d = 44 then parse_members (set_property acc k v) ds
                               else if d = 125 then Some (JObj (set_property acc k v), ds)
                               else None)
                         else None)
                   else None))
         else None)"
  by pat_completeness auto
termination
proof (relation "measure (\<lambda>x. case x of
      Inl s \<Rightarrow> 2 * length s
    | Inr (Inl (acc, s)) \<Rightarrow> 2 * length s + 1
    | Inr (Inr (acc, s)) \<Rightarrow> 2 * length s + 1)", goal_cases)
  case 1
  then show ?case by simp
next
  case (2 s c cs d ds)
  from skip_ws_shrinks [OF 2(1)] skip_ws_shrinks [OF 2(3)] show ?case by simp
next
  case (3 s c cs d ds)
  from skip_ws_shrinks [OF 3(1)] skip_ws_shrinks [OF 3(4)] show ?case by simp
next
  case (4 acc s)
  then show ?case by simp
next
  case 5
  then show ?case by (auto dest!: skip_ws_shrinks)
next
  case 6
  then show ?case by (auto dest!: skip_ws_shrinks string_body_rest_shorter)
next
  case 7
  then show ?case by (auto dest!: skip_ws_shrinks string_body_rest_shorter)
qed

declare parse_value.simps [simp del] parse_elements.simps [simp del] parse_members.simps [simp del]

text \<open>
  \<^verbatim>\<open>JSON.parse(text)\<close>: one value, with nothing but white space after it. \<open>None\<close> is
  the SyntaxError.
\<close>

definition JSON_parse :: "jstring \<Rightarrow> json option" where
  "JSON_parse text =
     (case parse_value text of
        None \<Rightarrow> None
      | Some (v, r) \<Rightarrow> if skip_ws r = [] then Some v else None)"

text \<open>
  \<^verbatim>\<open>typeof v === 'string'\<close>, and \<^verbatim>\<open>typeof v === 'object' && v !== null\<close> (an array
  is an object).
\<close>

fun is_string :: "json \<Rightarrow> bool" where
  "is_string (JStr _) = True"
| "is_string _ = False"

fun is_object :: "json \<Rightarrow> bool" where
  "is_object (JArr _) = True"
| "is_object (JObj _) = True"
| "is_object _ = False"

text \<open>
  \<^verbatim>\<open>ToString\<close>, which \<^verbatim>\<open>JSON.parse\<close> applies to its argument and a property
  access to its key. For a number it is the numeral as written, which is the text
  JavaScript prints when the numeral is in JavaScript's own notation. An array is the
  join of its elements, with \<^verbatim>\<open>null\<close> as the empty string.
\<close>

fun join_comma :: "jstring list \<Rightarrow> jstring" where
  "join_comma [] = []"
| "join_comma [x] = x"
| "join_comma (x # y # zs) = x @ 44 # join_comma (y # zs)"

fun ToString :: "json \<Rightarrow> jstring" where
  "ToString JNull = [110, 117, 108, 108]"
| "ToString (JBool b) = (if b then [116, 114, 117, 101] else [102, 97, 108, 115, 101])"
| "ToString (JNum tok) = tok"
| "ToString (JStr s) = s"
| "ToString (JArr vs) = join_comma (map (\<lambda>v. if v = JNull then [] else ToString v) vs)"
| "ToString (JObj m) = js ''[object Object]''"

subsection \<open>safeParseJSON (ResultsAnalysis)\<close>

text \<open>
  The argument of \<^verbatim>\<open>safeParseJSON\<close> is a JSON value, as the backend client delivers
  the \<^verbatim>\<open>result\<close> column, or \<^verbatim>\<open>undefined\<close> (the input \<open>None\<close>) when the row has no
  such property. \<^verbatim>\<open>JSON.parse\<close> converts it to a string first.
\<close>

definition ToString_value :: "json option \<Rightarrow> jstring" where
  "ToString_value x = (case x of None \<Rightarrow> js ''undefined'' | Some v \<Rightarrow> ToString v)"

text \<open>
  The function as it is written, with no assumption that its recursion ends: the result
  \<open>None\<close> would be a call that never returns. The \<^verbatim>\<open>catch\<close> returns the empty
  object.
\<close>

partial_function (option) safeParseJSON :: "json option \<Rightarrow> json option" where
  "safeParseJSON input =
     (if input \<noteq> None \<and> is_object (the input) then input
      else
        (case JSON_parse (ToString_value input) of
           None \<Rightarrow> Some (JObj [])
         | Some parsed \<Rightarrow>
            if is_string parsed then safeParseJSON (Some parsed) else Some parsed))"

subsection \<open>JSON.stringify\<close>

text \<open>A member of an object: the quoted key, a colon, and the text of the value.\<close>

definition member_text :: "jstring \<Rightarrow> jstring \<Rightarrow> jstring" where
  "member_text k v = QuoteJSONString k @ 58 # v"

text \<open>
  The order in which the properties of an object are enumerated: first the keys that are
  array indices (canonical decimal numerals below \<open>2^32 - 1\<close>), in ascending numeric
  order, then the other keys in the order of their definition.
\<close>

definition digits_value :: "jstring \<Rightarrow> nat" where
  "digits_value ds = foldl (\<lambda>n c. 10 * n + (c - 48)) 0 ds"

definition is_array_index :: "jstring \<Rightarrow> bool" where
  "is_array_index k =
     (k \<noteq> [] \<and> list_all is_digit k \<and> (hd k \<noteq> 48 \<or> k = [48])
      \<and> digits_value k < 4294967295)"

definition property_order :: "(jstring \<times> 'v) list \<Rightarrow> (jstring \<times> 'v) list" where
  "property_order m =
     sort_key (\<lambda>p. digits_value (fst p)) (filter (\<lambda>p. is_array_index (fst p)) m)
     @ filter (\<lambda>p. \<not> is_array_index (fst p)) m"

lemma set_property_order: "set (property_order m) = set m"
  by (auto simp: property_order_def)

text \<open>\<^verbatim>\<open>JSON.stringify(v)\<close> with no indentation; a number is written as its numeral.\<close>

function JSON_stringify :: "json \<Rightarrow> jstring" where
  "JSON_stringify JNull = [110, 117, 108, 108]"
| "JSON_stringify (JBool b) = (if b then [116, 114, 117, 101] else [102, 97, 108, 115, 101])"
| "JSON_stringify (JNum tok) = tok"
| "JSON_stringify (JStr s) = QuoteJSONString s"
| "JSON_stringify (JArr vs) = 91 # join_comma (map JSON_stringify vs) @ [93]"
| "JSON_stringify (JObj m) =
     123 # join_comma (map (\<lambda>p. member_text (fst p) (JSON_stringify (snd p)))
                         (property_order m)) @ [125]"
  by pat_completeness auto
termination
proof (relation "measure size", goal_cases)
  case 1
  then show ?case by simp
next
  case (2 vs v)
  then show ?case by (induction vs) auto
next
  case (3 m p)
  then have "p \<in> set m" by (simp add: set_property_order)
  then show ?case by (induction m) (auto simp: less_Suc_eq_le)
qed

text \<open>
  The JSON values that a JavaScript program can hold: every number is a number token,
  the keys of an object are distinct, and its properties are listed in enumeration order.
\<close>

fun wf_json :: "json \<Rightarrow> bool" where
  "wf_json (JNum tok) = (scan_number tok = Some (tok, []))"
| "wf_json (JArr vs) = (\<forall>v\<in>set vs. wf_json v)"
| "wf_json (JObj m) =
     (distinct (map fst m) \<and> property_order m = m \<and> (\<forall>p\<in>set m. wf_json (snd p)))"
| "wf_json _ = True"

text \<open>
  What may follow a value inside a JSON text written by \<^verbatim>\<open>JSON.stringify\<close>: nothing,
  a comma, or a closing bracket or brace; none of these continues a number token.
\<close>

definition number_end :: "jstring \<Rightarrow> bool" where
  "number_end rest =
     (case rest of [] \<Rightarrow> True | c # _ \<Rightarrow> \<not> is_digit c \<and> c \<noteq> 46 \<and> c \<noteq> 101 \<and> c \<noteq> 69)"

definition delimited :: "jstring \<Rightarrow> bool" where
  "delimited rest = (case rest of [] \<Rightarrow> True | c # _ \<Rightarrow> c = 44 \<or> c = 93 \<or> c = 125)"

text \<open>A character with which the text of a value can start.\<close>

definition value_start :: "nat \<Rightarrow> bool" where
  "value_start c = (\<not> is_ws c \<and> c \<noteq> 93 \<and> c \<noteq> 125)"

text \<open>A value string-encoded \<open>n\<close> times: \<^verbatim>\<open>JSON.stringify\<close> applied \<open>n\<close> times.\<close>

fun encode_times :: "nat \<Rightarrow> json \<Rightarrow> json" where
  "encode_times 0 v = v"
| "encode_times (Suc n) v = JStr (JSON_stringify (encode_times n v))"

subsection \<open>calculateChartData (ResultsAnalysis)\<close>

text \<open>
  A row of \<^verbatim>\<open>result_test\<close>. \<^verbatim>\<open>fetchResults\<close> replaces the \<^verbatim>\<open>result\<close> of every
  row it stores by \<^verbatim>\<open>safeParseJSON(row.result)\<close>. In the \<^verbatim>\<open>result\<close> field \<open>None\<close>
  is \<^verbatim>\<open>undefined\<close>.
\<close>

record ResultRow =
  row_id :: string
  created_at :: string
  row_test_id :: string
  row_candidate_id :: string
  result :: "json option"

definition processRow :: "ResultRow \<Rightarrow> ResultRow option" where
  "processRow row =
     (case safeParseJSON (result row) of
        None \<Rightarrow> None
      | Some parsed \<Rightarrow> Some (row\<lparr>result := Some parsed\<rparr>))"

text \<open>
  Truthiness. A number is falsy when it is zero, that is, when its numeral has no
  non-zero digit before the exponent (a numeral that underflows to zero is not covered).
  \<open>None\<close> is \<^verbatim>\<open>undefined\<close>.
\<close>

definition number_is_zero :: "jstring \<Rightarrow> bool" where
  "number_is_zero tok =
     (\<forall>c\<in>set (takeWhile (\<lambda>c. c \<noteq> 101 \<and> c \<noteq> 69) tok). \<not> (49 \<le> c \<and> c \<le> 57))"

fun truthy_json :: "json \<Rightarrow> bool" where
  "truthy_json JNull = False"
| "truthy_json (JBool b) = b"
| "truthy_json (JNum tok) = (\<not> number_is_zero tok)"
| "truthy_json (JStr s) = (s \<noteq> [])"
| "truthy_json (JArr _) = True"
| "truthy_json (JObj _) = True"

definition truthy_value :: "json option \<Rightarrow> bool" where
  "truthy_value x = (case x of None \<Rightarrow> False | Some v \<Rightarrow> truthy_json v)"

text \<open>
  Reading a property of a JSON value, for the property names this code reads, none of
  which is inherited from a prototype: an object gives its own property, any other
  non-null value gives \<^verbatim>\<open>undefined\<close>, and \<^verbatim>\<open>null\<close> or \<^verbatim>\<open>undefined\<close> throws.
  \<open>get_optional\<close> is the same read where it cannot throw: after \<^verbatim>\<open>?.\<close>, or on a
  receiver already known to be truthy.
\<close>

definition get_property :: "json option \<Rightarrow> jstring \<Rightarrow> js_error + json option" where
  "get_property x k =
     (case x of
        None \<Rightarrow> Inl TypeError
      | Some JNull \<Rightarrow> Inl TypeError
      | Some (JObj m) \<Rightarrow> Inr (map_of m k)
      | Some _ \<Rightarrow> Inr None)"

definition get_optional :: "json option \<Rightarrow> jstring \<Rightarrow> json option" where
  "get_optional x k =
     (case x of
        None \<Rightarrow> None
      | Some JNull \<Rightarrow> None
      | Some (JObj m) \<Rightarrow> map_of m k
      | Some _ \<Rightarrow> None)"

text \<open>
  \<^verbatim>\<open>Object.entries\<close> of a truthy value: the properties of an object in enumeration
  order, the elements of an array or the characters of a string under their indices, and
  nothing for a number or a boolean.
\<close>

fun digits :: "nat \<Rightarrow> jstring" where
  "digits n = (if n < 10 then [48 + n] else digits (n div 10) @ [48 + n mod 10])"

declare digits.simps [simp del]

definition entries :: "json \<Rightarrow> (jstring \<times> json) list" where
  "entries v =
     (case v of
        JObj m \<Rightarrow> property_order m
      | JArr vs \<Rightarrow> map (\<lambda>i. (digits i, vs ! i)) [0..<length vs]
      | JStr s \<Rightarrow> map (\<lambda>i. (digits i, JStr [s ! i])) [0..<length s]
      | _ \<Rightarrow> [])"

text \<open>
  The values of the chart entries. \<open>Average total count\<close> stands for
  \<^verbatim>\<open>(total / count).toFixed(1)\<close>, with \<open>None\<close> for a total that is \<^verbatim>\<open>NaN\<close>; the
  division and the formatting (floating point) are not computed. A tally is a count, or
  the text of an inherited function followed by as many \<^verbatim>\<open>1\<close> as the tag occurred
  (see \<open>add_count\<close>).
\<close>

datatype tally = Tally nat | Native_text nat

datatype amount =
  Number jstring
  | Zero
  | Average "int option" nat
  | Tallied tally

record radar_entry =
  subject :: jstring
  fullSubject :: "jstring option"
  A :: amount
  fullMark :: nat

record bar_entry =
  name :: jstring
  bar_value :: amount

record chart =
  radarData :: "radar_entry list"
  barData :: "bar_entry list"
  isAiData :: bool

text \<open>\<^verbatim>\<open>typeof value === 'number' ? value : 0\<close>.\<close>

definition number_or_zero :: "json \<Rightarrow> amount" where
  "number_or_zero v = (case v of JNum tok \<Rightarrow> Number tok | _ \<Rightarrow> Zero)"

definition sections :: "jstring list" where
  "sections =
     [js ''caracteirsta-de-personalidade-comunicacao'',
      js ''caracteirsta-de-personalidade-organizacao'',
      js ''caracteirsta-de-personalidade-lideranca'',
      js ''caracteirsta-de-personalidade-analitico'']"

text \<open>
  One round of \<^verbatim>\<open>sections.forEach\<close>: the radar entries of one section;
  \<^verbatim>\<open>key.replace(/_/g, ' ')\<close> turns every underscore into a space.
\<close>

definition section_entries :: "json \<Rightarrow> jstring \<Rightarrow> radar_entry list" where
  "section_entries data secKey =
     (if truthy_value (get_optional (Some data) secKey)
      then map (\<lambda>(key, v).
                  \<lparr>subject = map (\<lambda>c. if c = 95 then 32 else c) key, fullSubject = None,
                   A = number_or_zero v, fullMark = 100\<rparr>)
             (entries (the (get_optional (Some data) secKey)))
      else [])"

text \<open>
  \<^verbatim>\<open>categoryScores\<close> and \<^verbatim>\<open>profileCounts\<close> are plain objects, so a read of one of
  these keys finds the property inherited from \<^verbatim>\<open>Object.prototype\<close>.
\<close>

definition object_prototype_keys :: "jstring list" where
  "object_prototype_keys =
     [js ''constructor'', js ''__defineGetter__'', js ''__defineSetter__'',
      js ''hasOwnProperty'', js ''__lookupGetter__'', js ''__lookupSetter__'',
      js ''isPrototypeOf'', js ''propertyIsEnumerable'', js ''toString'', js ''valueOf'',
      js ''__proto__'', js ''toLocaleString'']"

text \<open>
  \<^verbatim>\<open>parseInt(x, 10)\<close> on the text of \<open>x\<close>: leading white space, an optional sign, and
  the longest run of decimal digits; \<open>None\<close> is \<^verbatim>\<open>NaN\<close>. The value is the exact integer
  (a double rounds it beyond \<open>2^53\<close>). \<open>parseInt_isNaN\<close> is \<^verbatim>\<open>isNaN(parseInt(x))\<close>,
  where a \<^verbatim>\<open>0x\<close> prefix switches to hexadecimal digits.
\<close>

definition is_js_space :: "nat \<Rightarrow> bool" where
  "is_js_space c =
     (c = 9 \<or> c = 10 \<or> c = 11 \<or> c = 12 \<or> c = 13 \<or> c = 32 \<or> c = 160 \<or> c = 5760
      \<or> (8192 \<le> c \<and> c \<le> 8202) \<or> c = 8232 \<or> c = 8233 \<or> c = 8239 \<or> c = 8287
      \<or> c = 12288 \<or> c = 65279)"

definition parseInt10 :: "jstring \<Rightarrow> int option" where
  "parseInt10 s =
     (case scan_sign (dropWhile is_js_space s) of
        (sign, r) \<Rightarrow>
          if takeWhile is_digit r = [] then None
          else Some ((if sign = [45] then - 1 else 1) * int (digits_value (takeWhile is_digit r))))"

definition parseInt_isNaN :: "jstring \<Rightarrow> bool" where
  "parseInt_isNaN s =
     (case scan_sign (dropWhile is_js_space s) of
        (sign, r) \<Rightarrow>
          if take 2 r = [48, 120] \<or> take 2 r = [48, 88]
          then (case drop 2 r of [] \<Rightarrow> True | h # _ \<Rightarrow> hexval h = None)
          else takeWhile is_digit r = [])"

text \<open>
  The two local tables, as lists of their own properties. \<open>add_score\<close> is
  \<^verbatim>\<open>if (!categoryScores[c]) categoryScores[c] = {total: 0, count: 0}\<close> followed by the two
  updates; for an inherited key the read is truthy, the updates go to the inherited
  object, and the table gets no property of its own. \<open>add_count\<close> is
  \<^verbatim>\<open>profileCounts[tag] = (profileCounts[tag] || 0) + 1\<close>; for an inherited key the sum is a
  text, and the assignment to \<^verbatim>\<open>__proto__\<close> defines nothing.
\<close>

type_synonym scores = "(jstring \<times> int option \<times> nat) list"

type_synonym counts = "(jstring \<times> tally) list"

definition add_score :: "scores \<Rightarrow> jstring \<Rightarrow> int option \<Rightarrow> scores" where
  "add_score categoryScores cat n =
     (case map_of categoryScores cat of
        Some (tot, cnt) \<Rightarrow>
          set_property categoryScores cat
            ((case (tot, n) of (Some t, Some x) \<Rightarrow> Some (t + x) | _ \<Rightarrow> None), cnt + 1)
      | None \<Rightarrow>
          if cat \<in> set object_prototype_keys then categoryScores
          else categoryScores @ [(cat, n, 1)])"

definition add_count :: "counts \<Rightarrow> jstring \<Rightarrow> counts" where
  "add_count profileCounts tag =
     (case map_of profileCounts tag of
        Some (Tally n) \<Rightarrow> set_property profileCounts tag (Tally (n + 1))
      | Some (Native_text n) \<Rightarrow> set_property profileCounts tag (Native_text (n + 1))
      | None \<Rightarrow>
          if tag = js ''__proto__'' then profileCounts
          else if tag \<in> set object_prototype_keys then profileCounts @ [(tag, Native_text 1)]
          else profileCounts @ [(tag, Tally 1)])"

text \<open>
  \<^verbatim>\<open>if (v && isNaN(parseInt(v))) profileCounts[v] = ...\<close>, for \<^verbatim>\<open>q.resposta.value\<close>
  and for \<^verbatim>\<open>q.resposta.most?.value\<close>.
\<close>

definition tally_tag :: "json option \<Rightarrow> counts \<Rightarrow> counts" where
  "tally_tag v profileCounts =
     (if truthy_value v \<and> parseInt_isNaN (ToString (the v))
      then add_count profileCounts (ToString (the v))
      else profileCounts)"

text \<open>
  One round of \<^verbatim>\<open>questions.forEach\<close>. Reading \<^verbatim>\<open>q.category\<close> throws when the element
  is \<^verbatim>\<open>null\<close>.
\<close>

definition question_step ::
  "scores \<times> counts \<Rightarrow> json \<Rightarrow> js_error + scores \<times> counts" where
  "question_step acc q =
     (case acc of
        (categoryScores, profileCounts) \<Rightarrow>
          (case get_property (Some q) (js ''category'') of
             Inl e \<Rightarrow> Inl e
           | Inr q_category \<Rightarrow>
              (let q_type = get_optional (Some q) (js ''type'');
                   q_resposta = get_optional (Some q) (js ''resposta'');
                   categoryScores' =
                     (if truthy_value q_category \<and> q_type = Some (JStr (js ''scale''))
                         \<and> truthy_value (get_optional q_resposta (js ''value''))
                      then add_score categoryScores (ToString (the q_category))
                             (parseInt10
                                (ToString (the (get_optional q_resposta (js ''value'')))))
                      else categoryScores);
                   profileCounts' =
                     (if q_type = Some (JStr (js ''choice'')) \<and> truthy_value q_resposta
                      then tally_tag
                             (get_optional (get_optional q_resposta (js ''most'')) (js ''value''))
                             (tally_tag (get_optional q_resposta (js ''value'')) profileCounts)
                      else profileCounts)
               in Inr (categoryScores', profileCounts'))))"

fun forEach_question ::
  "scores \<times> counts \<Rightarrow> json list \<Rightarrow> js_error + scores \<times> counts" where
  "forEach_question acc [] = Inr acc"
| "forEach_question acc (q # qs) =
     (case question_step acc q of
        Inl e \<Rightarrow> Inl e
      | Inr acc' \<Rightarrow> forEach_question acc' qs)"

text \<open>\<^verbatim>\<open>a || b || c || []\<close>.\<close>

definition first_truthy :: "json option list \<Rightarrow> json" where
  "first_truthy xs =
     (case filter truthy_value xs of [] \<Rightarrow> JArr [] | x # _ \<Rightarrow> the x)"

text \<open>
  \<^verbatim>\<open>calculateChartData\<close>. \<^verbatim>\<open>resultRow.result || {}\<close> is truthy, so it is a value
  and the reads on it cannot throw. In the second scenario \<^verbatim>\<open>questions.forEach\<close> throws a TypeError unless
  \<^verbatim>\<open>questions\<close> is an array.
\<close>

definition calculateChartData :: "ResultRow \<Rightarrow> js_error + chart" where
  "calculateChartData resultRow =
     (let data = (if truthy_value (result resultRow) then the (result resultRow) else JObj [])
      in
      if truthy_value (get_optional (Some data) (js ''caracteirsta-de-personalidade-lideranca''))
         \<or> truthy_value (get_optional (Some data) (js ''metadados_calculo''))
      then
        (let meta = get_optional (Some data) (js ''metadados_calculo'');
             escala = get_optional meta (js ''escala_0_100'')
         in Inr \<lparr>radarData = concat (map (section_entries data) sections),
                 barData =
                   (if truthy_value meta \<and> truthy_value escala
                    then map (\<lambda>(key, v). \<lparr>name = key, bar_value = number_or_zero v\<rparr>)
                           (entries (the escala))
                    else []),
                 isAiData = True\<rparr>)
      else
        (let question_list =
               first_truthy
                 [get_optional (Some data) (js ''body''),
                  get_optional (Some data) (js ''questions''),
                  get_optional (get_optional (Some data) (js ''payload'')) (js ''body'')]
         in case question_list of
              JArr qs \<Rightarrow>
                (case forEach_question ([], []) qs of
                   Inl e \<Rightarrow> Inl e
                 | Inr (categoryScores, profileCounts) \<Rightarrow>
                     Inr \<lparr>radarData =
                            map (\<lambda>(cat, tot, cnt).
                                   \<lparr>subject = (if length cat > 20 then take 20 cat @ js ''...''
                                               else cat),
                                    fullSubject = Some cat, A = Average tot cnt,
                                    fullMark = 5\<rparr>)
                              (property_order categoryScores),
                          barData =
                            map (\<lambda>(tag, n). \<lparr>name = tag, bar_value = Tallied n\<rparr>)
                              (property_order profileCounts),
                          isAiData = False\<rparr>)
            | _ \<Rightarrow> Inl TypeError))"

declare safeParseJSON.simps [code]

section \<open>Example values\<close>

definition option_A :: QuestionOption where
  "option_A = \<lparr>o_text = ''Option A'', o_value = ''Analitico''\<rparr>"

definition option_B :: QuestionOption where
  "option_B = \<lparr>o_text = ''Option B'', o_value = ''Lider''\<rparr>"

definition question_1 :: Question where
  "question_1 = \<lparr>q_id = ''q1'', q_text = ''I plan ahead'', category = Some ''Organizacao'',
     qtype = Scale, options = None, variation = None\<rparr>"

definition question_2 :: Question where
  "question_2 = \<lparr>q_id = ''q2'', q_text = ''Pick one'', category = None,
     qtype = Choice, options = Some [option_A, option_B], variation = Some Single\<rparr>"

definition question_3 :: Question where
  "question_3 = \<lparr>q_id = ''q3'', q_text = ''Most and least'', category = None,
     qtype = Choice, options = Some [option_A, option_B], variation = Some Most_least\<rparr>"

definition test_T1 :: Test where
  "test_T1 = \<lparr>t_id = ''T1'', title = ''Leadership'', description = ''Two questions'',
     questions = [question_1, question_2], active = True\<rparr>"

definition answers_T1 :: answers where
  "answers_T1 = handleSingleChoice ''q2'' option_B (handleScaleAnswer ''q1'' V4 Map.empty)"

definition state_T1 :: cv_state where
  "state_T1 = \<lparr>loading = False, error = None, candidateName = ''Ana'',
     candidateEmail = ''ana@example.com'', test = Some test_T1, alreadyTaken = False,
     currentStep = 1, answers = answers_T1, isSubmitting = False, isCompleted = False,
     hasSubmittedRef = False\<rparr>"

definition profile_done :: profile_row where
  "profile_done = \<lparr>p_name = ''Ana'', p_email = Some ''ana@example.com'', p_role = ''candidate'',
     p_status = Completed, p_assigned_test_id = None, p_score = Some 7,
     p_completed_date = Some ''2024-05-01''\<rparr>"

definition world_online :: world where
  "world_online = \<lparr>select_profile = (\<lambda>_. Inr profile_done),
     select_test = (\<lambda>_. Inl ''not found''), parse_questions = (\<lambda>_. None),
     webhook = (\<lambda>_. Resolved 200), update_profile = (\<lambda>_ _. None),
     today = ''2024-05-02''\<rparr>"

definition answers_q3 :: answers where
  "answers_q3 = [''q3'' \<mapsto> MostLeast (Some option_B) (Some option_A)]"

definition state_q3 :: cv_state where
  "state_q3 = state_T1\<lparr>test := Some (test_T1\<lparr>questions := [question_3]\<rparr>), currentStep := 0,
     answers := [''q3'' \<mapsto> MostLeast (Some option_A) None]\<rparr>"

definition profiles_1 :: profiles where
  "profiles_1 = [''u1'' \<mapsto> profile_done]"

definition form_1 :: formData where
  "form_1 = \<lparr>f_name = ''Ana Maria'', f_email = ''other@example.com'', f_password = [],
     f_testId = ''T1''\<rparr>"

definition roster_1 :: cl_state where
  "roster_1 = \<lparr>candidates = [], editingId = Some ''u1'', formData = form_1,
     cl_isSubmitting = False, errorMsg = None, showModal = True\<rparr>"

definition admin_world_1 :: admin_world where
  "admin_world_1 = \<lparr>aw_update_profile = (\<lambda>_ _. None), aw_sign_up = (\<lambda>_. Inr None)\<rparr>"

definition body_T1 :: "payload_entry list" where
  "body_T1 =
     [\<lparr>e_id = ''q1'', e_text = ''I plan ahead'', e_category = Some ''Organizacao'',
       e_type = Scale, e_options = None, e_variation = None,
       resposta = Some (Chosen \<lparr>o_text = ''4'', o_value = ''4''\<rparr>)\<rparr>,
      \<lparr>e_id = ''q2'', e_text = ''Pick one'', e_category = None,
       e_type = Choice, e_options = Some [option_A, option_B], e_variation = Some Single,
       resposta = Some (Chosen option_B)\<rparr>]"

definition payload_T1 :: payload where
  "payload_T1 = \<lparr>test_id = ''T1'', test_title = ''Leadership'',
     test_description = ''Two questions'', candidate_id = ''u1'',
     candidate_email = ''ana@example.com'', body = body_T1\<rparr>"

definition state_empty :: cv_state where
  "state_empty = state_T1\<lparr>test := Some (test_T1\<lparr>questions := []\<rparr>)\<rparr>"

definition world_offline :: world where
  "world_offline = world_online\<lparr>webhook := (\<lambda>_. Rejected)\<rparr>"

definition world_http_500 :: world where
  "world_http_500 = world_online\<lparr>webhook := (\<lambda>_. Resolved 500)\<rparr>"

definition profiles_pending :: profiles where
  "profiles_pending =
     [''u1'' \<mapsto> profile_done\<lparr>p_status := Pending, p_completed_date := None\<rparr>]"

definition example_members :: "(jstring \<times> json) list" where
  "example_members =
     [(js ''0'', JArr [JNull, JBool True]),
      (js ''score'', JNum (js ''-12.5e+3'')),
      (js ''note'', JStr (34 # js ''x'' @ [10, 55357]))]"

definition example_row :: ResultRow where
  "example_row = \<lparr>row_id = ''r1'', created_at = ''2024-05-02'', row_test_id = ''T1'',
     row_candidate_id = ''u1'', result = Some (JStr (js ''{bad''))\<rparr>"

definition raw_answers :: json where
  "raw_answers =
     JObj [(js ''body'',
       JArr [JObj [(js ''category'', JStr (js ''Foco'')), (js ''type'', JStr (js ''scale'')),
                   (js ''resposta'', JObj [(js ''text'', JStr (js ''4'')),
                                            (js ''value'', JStr (js ''4''))])],
             JObj [(js ''category'', JStr (js ''Foco'')), (js ''type'', JStr (js ''scale'')),
                   (js ''resposta'', JObj [(js ''text'', JStr (js ''5'')),
                                            (js ''value'', JStr (js ''5''))])],
             JObj [(js ''type'', JStr (js ''choice'')),
                   (js ''resposta'', JObj [(js ''text'', JStr (js ''B'')),
                                            (js ''value'', JStr (js ''Lider''))])]])]"

definition ai_result :: json where
  "ai_result =
     JObj [(js ''metadados_calculo'',
              JObj [(js ''escala_0_100'',
                       JObj [(js ''Lider'', JNum (js ''80'')),
                             (js ''Analitico'', JStr (js ''x''))])]),
           (js ''caracteirsta-de-personalidade-lideranca'',
              JObj [(js ''visao_de_futuro'', JNum (js ''70''))])]"

section \<open>Properties of the candidate flow and of the roster\<close>

text \<open>
  Claim C7. After \<^verbatim>\<open>handleMostLeast\<close>, whatever the answers were before, the question's
  "most" and "least" sides are not both defined with the same option text: one side is
  undefined or their texts differ. The selected side holds the selected option; selecting
  as "most" the option whose text the current "least" has clears "least", and selecting as
  "least" the option whose text the current "most" has clears "most". The answers of the
  other questions are left as they were.
\<close>

theorem handleMostLeast_sides_differ:
  "(case (ans_most (currentAnswer (handleMostLeast questionId ty opt prev) questionId),
          ans_least (currentAnswer (handleMostLeast questionId ty opt prev) questionId)) of
      (Some m, Some l) \<Rightarrow> o_text m \<noteq> o_text l
    | _ \<Rightarrow> True)
   \<and> ans_most (currentAnswer (handleMostLeast questionId Most opt prev) questionId) = Some opt
   \<and> ans_least (currentAnswer (handleMostLeast questionId Least opt prev) questionId) = Some opt
   \<and> (same_text (ans_least (currentAnswer prev questionId)) opt \<longrightarrow>
        ans_least (currentAnswer (handleMostLeast questionId Most opt prev) questionId) = None)
   \<and> (same_text (ans_most (currentAnswer prev questionId)) opt \<longrightarrow>
        ans_most (currentAnswer (handleMostLeast questionId Least opt prev) questionId) = None)
   \<and> (\<forall>other. other \<noteq> questionId \<longrightarrow> handleMostLeast questionId ty opt prev other = prev other)"
  by (cases ty) (auto simp: handleMostLeast_def currentAnswer_def same_text_def Let_def
        split: option.splits)

text \<open>
  Claim C6. With a test loaded and the current step inside its question list,
  \<^verbatim>\<open>canProceed\<close> returns \<^verbatim>\<open>true\<close> exactly when the answer recorded for the current
  question satisfies the completion predicate of its type. In every other case the value
  returned is falsy (\<^verbatim>\<open>false\<close>, or \<^verbatim>\<open>undefined\<close> when a most/least side is
  missing), the button is disabled, and a click on it neither advances nor submits.
\<close>

theorem canProceed_iff_completion:
  assumes "test s = Some t" and "currentStep s < length (questions t)"
  shows "(canProceed (test s) (currentStep s) (answers s) = Inr (JS_boolean True)) =
           completion_predicate (questions t ! currentStep s)
             (answers s (q_id (questions t ! currentStep s)))
         \<and> (\<not> completion_predicate (questions t ! currentStep s)
                (answers s (q_id (questions t ! currentStep s))) \<longrightarrow>
              (canProceed (test s) (currentStep s) (answers s) = Inr (JS_boolean False)
               \<or> canProceed (test s) (currentStep s) (answers s) = Inr JS_undefined)
              \<and> click_next w candidateId s = (s, []))"
  using assms
  by (cases "qtype (questions t ! currentStep s)")
     (auto simp: canProceed_def nth_question_def completion_predicate_def click_next_def
        next_disabled_def split: option.splits answer.splits)

text \<open>
  Claim C5. When the profile select answers with a profile whose status is
  \<^verbatim>\<open>completed\<close> or \<^verbatim>\<open>in-progress\<close>, \<^verbatim>\<open>loadSession\<close> sets \<^verbatim>\<open>alreadyTaken\<close>
  and the component renders the "already taken" screen, whatever the profile's assigned
  test is. The only request sent is the profile select: the test is never fetched, and
  neither the assigned-test check nor the active check stores its message.
\<close>

theorem loadSession_already_taken:
  assumes "select_profile w candidateId = Inr profile"
    and "p_status profile = Completed \<or> p_status profile = In_progress"
  shows "alreadyTaken (fst (loadSession w candidateId s))
         \<and> render (fst (loadSession w candidateId s)) = Inr Already_taken_screen
         \<and> snd (loadSession w candidateId s) = [Select_profile candidateId]
         \<and> test (fst (loadSession w candidateId s)) = test s
         \<and> error (fst (loadSession w candidateId s)) = error s"
  using assms by (auto simp: loadSession_def loadSession_try_def render_def Let_def)

lemma submitTest_try_latch_free:
  "submitTest_try w candidateId (s\<lparr>hasSubmittedRef := a, isSubmitting := b\<rparr>) =
   submitTest_try w candidateId s"
  by (simp add: submitTest_try_def split: option.splits sum.splits)

lemma submitTest_try_cases:
  "submitTest_try w candidateId s = (reqs, r) \<Longrightarrow>
   (reqs = [] \<and> r \<noteq> None)
   \<or> (\<exists>t qs. test s = Some t \<and> questionsList (answers s) (questions t) = Inr qs \<and> qs \<noteq> []
        \<and> (let p = finalPayload t candidateId (candidateEmail s) qs in
             (webhook w p = Rejected \<and> reqs = [Webhook_post p] \<and> r = Some Webhook_failed)
             \<or> ((\<exists>code. webhook w p = Resolved code)
                 \<and> (\<exists>rest. reqs = [Webhook_post p, Update_profile candidateId (completed_update w)] @ rest
                       \<and> set rest \<subseteq> {Schedule_onComplete}))))"
  by (auto simp: submitTest_try_def Let_def
        split: option.splits sum.splits if_splits fetch_outcome.splits)

text \<open>
  Claim C1, as the code has it. The claim's "delivery succeeds" holds in the code as
  "\<^verbatim>\<open>fetch\<close> resolves", whatever the HTTP status of the response. In every run of
  \<^verbatim>\<open>submitTest\<close> that issues a profile update, the payload was built from the test's
  questions, \<^verbatim>\<open>fetch\<close> resolved for that payload, and the first two requests are the
  webhook post followed by the update of the candidate's row to status \<^verbatim>\<open>completed\<close>
  with today's date (the UTC date). In every run in which \<^verbatim>\<open>fetch\<close> rejects, the
  webhook post is the only request: no profile update is issued, every table of profiles
  is left as it was, the failure message is stored and \<^verbatim>\<open>isCompleted\<close> is not set.
  In every run in which \<^verbatim>\<open>fetch\<close> resolves, with any status, the update follows the
  webhook post.
\<close>

theorem submitTest_webhook_then_profile:
  "(\<forall>i cols. Update_profile i cols \<in> set (snd (submitTest w candidateId s)) \<longrightarrow>
      (\<exists>t qs code. test s = Some t
         \<and> questionsList (answers s) (questions t) = Inr qs
         \<and> webhook w (finalPayload t candidateId (candidateEmail s) qs) = Resolved code
         \<and> take 2 (snd (submitTest w candidateId s)) =
             [Webhook_post (finalPayload t candidateId (candidateEmail s) qs),
              Update_profile candidateId
                [Set_status Completed, Set_completed_date (Some (today w))]]))
   \<and> (\<forall>t qs. \<not> hasSubmittedRef s \<and> test s = Some t
         \<and> questionsList (answers s) (questions t) = Inr qs \<and> qs \<noteq> []
         \<and> webhook w (finalPayload t candidateId (candidateEmail s) qs) = Rejected \<longrightarrow>
       snd (submitTest w candidateId s) =
         [Webhook_post (finalPayload t candidateId (candidateEmail s) qs)]
       \<and> (\<forall>tbl. foldl apply_request tbl (snd (submitTest w candidateId s)) = tbl)
       \<and> error (fst (submitTest w candidateId s)) = Some (Submit_failed Webhook_failed)
       \<and> isCompleted (fst (submitTest w candidateId s)) = isCompleted s)
   \<and> (\<forall>t qs code. \<not> hasSubmittedRef s \<and> test s = Some t
         \<and> questionsList (answers s) (questions t) = Inr qs \<and> qs \<noteq> []
         \<and> webhook w (finalPayload t candidateId (candidateEmail s) qs) = Resolved code \<longrightarrow>
       take 2 (snd (submitTest w candidateId s)) =
         [Webhook_post (finalPayload t candidateId (candidateEmail s) qs),
          Update_profile candidateId
            [Set_status Completed, Set_completed_date (Some (today w))]])"
proof (intro conjI allI impI)
  fix i cols
  assume upd: "Update_profile i cols \<in> set (snd (submitTest w candidateId s))"
  obtain reqs r where tr: "submitTest_try w candidateId s = (reqs, r)"
    by (cases "submitTest_try w candidateId s")
  have latch: "\<not> hasSubmittedRef s"
    using upd by (auto simp: submitTest_def)
  have reqs: "snd (submitTest w candidateId s) = reqs"
    using latch tr
    by (cases r) (simp_all add: submitTest_def Let_def submitTest_try_latch_free)
  from submitTest_try_cases [OF tr] upd reqs
  show "\<exists>t qs code. test s = Some t
         \<and> questionsList (answers s) (questions t) = Inr qs
         \<and> webhook w (finalPayload t candidateId (candidateEmail s) qs) = Resolved code
         \<and> take 2 (snd (submitTest w candidateId s)) =
             [Webhook_post (finalPayload t candidateId (candidateEmail s) qs),
              Update_profile candidateId
                [Set_status Completed, Set_completed_date (Some (today w))]]"
    by (auto simp: Let_def completed_update_def)
next
  fix t qs
  assume a: "\<not> hasSubmittedRef s \<and> test s = Some t
         \<and> questionsList (answers s) (questions t) = Inr qs \<and> qs \<noteq> []
         \<and> webhook w (finalPayload t candidateId (candidateEmail s) qs) = Rejected"
  then have tr: "submitTest_try w candidateId s =
      ([Webhook_post (finalPayload t candidateId (candidateEmail s) qs)], Some Webhook_failed)"
    by (simp add: submitTest_try_def Let_def)
  with a show only: "snd (submitTest w candidateId s) =
         [Webhook_post (finalPayload t candidateId (candidateEmail s) qs)]"
    by (simp add: submitTest_def Let_def submitTest_try_latch_free)
  show "foldl apply_request tbl (snd (submitTest w candidateId s)) = tbl" for tbl
    by (simp add: only)
  from a tr show "error (fst (submitTest w candidateId s)) = Some (Submit_failed Webhook_failed)"
    by (simp add: submitTest_def Let_def submitTest_try_latch_free)
  from a tr show "isCompleted (fst (submitTest w candidateId s)) = isCompleted s"
    by (simp add: submitTest_def Let_def submitTest_try_latch_free)
next
  fix t qs code
  assume a: "\<not> hasSubmittedRef s \<and> test s = Some t
         \<and> questionsList (answers s) (questions t) = Inr qs \<and> qs \<noteq> []
         \<and> webhook w (finalPayload t candidateId (candidateEmail s) qs) = Resolved code"
  obtain reqs r where tr: "submitTest_try w candidateId s = (reqs, r)"
    by (cases "submitTest_try w candidateId s")
  have reqs: "snd (submitTest w candidateId s) = reqs"
    using a tr
    by (cases r) (simp_all add: submitTest_def Let_def submitTest_try_latch_free)
  from a tr have "take 2 reqs =
         [Webhook_post (finalPayload t candidateId (candidateEmail s) qs),
          Update_profile candidateId
            [Set_status Completed, Set_completed_date (Some (today w))]]"
    by (auto simp: submitTest_try_def Let_def completed_update_def split: option.splits)
  with reqs show "take 2 (snd (submitTest w candidateId s)) =
         [Webhook_post (finalPayload t candidateId (candidateEmail s) qs),
          Update_profile candidateId
            [Set_status Completed, Set_completed_date (Some (today w))]]"
    by simp
qed

text \<open>
  Claim C2. With the latch set, \<^verbatim>\<open>submitTest\<close> returns the state as it is and sends
  nothing. With the latch clear, the latch is released at the end exactly when the attempt
  ended by an error (whose message is then stored); after a successful attempt the latch
  stays set and \<^verbatim>\<open>isCompleted\<close> is set. A call that follows a failed attempt runs
  again: it sends what a first attempt sends.
\<close>

theorem submitTest_latch:
  "(hasSubmittedRef s \<longrightarrow> submitTest w candidateId s = (s, []))
   \<and> (\<not> hasSubmittedRef s \<longrightarrow>
        (case snd (submitTest_try w candidateId s) of
           Some e \<Rightarrow> \<not> hasSubmittedRef (fst (submitTest w candidateId s))
                     \<and> error (fst (submitTest w candidateId s)) = Some (Submit_failed e)
                     \<and> isCompleted (fst (submitTest w candidateId s)) = isCompleted s
         | None \<Rightarrow> hasSubmittedRef (fst (submitTest w candidateId s))
                   \<and> error (fst (submitTest w candidateId s)) = error s
                   \<and> isCompleted (fst (submitTest w candidateId s))))
   \<and> (\<not> hasSubmittedRef s \<and> snd (submitTest_try w candidateId s) \<noteq> None \<longrightarrow>
        snd (submitTest w' candidateId (fst (submitTest w candidateId s))) =
          fst (submitTest_try w' candidateId s))"
proof (intro conjI impI)
  assume "hasSubmittedRef s"
  then show "submitTest w candidateId s = (s, [])"
    by (simp add: submitTest_def)
next
  assume "\<not> hasSubmittedRef s"
  then show "case snd (submitTest_try w candidateId s) of
           Some e \<Rightarrow> \<not> hasSubmittedRef (fst (submitTest w candidateId s))
                     \<and> error (fst (submitTest w candidateId s)) = Some (Submit_failed e)
                     \<and> isCompleted (fst (submitTest w candidateId s)) = isCompleted s
         | None \<Rightarrow> hasSubmittedRef (fst (submitTest w candidateId s))
                   \<and> error (fst (submitTest w candidateId s)) = error s
                   \<and> isCompleted (fst (submitTest w candidateId s))"
    by (cases "submitTest_try w candidateId s")
       (auto simp: submitTest_def Let_def submitTest_try_latch_free split: option.splits)
next
  assume a: "\<not> hasSubmittedRef s \<and> snd (submitTest_try w candidateId s) \<noteq> None"
  then obtain reqs e where t: "submitTest_try w candidateId s = (reqs, Some e)"
    by (cases "submitTest_try w candidateId s") auto
  with a have after: "fst (submitTest w candidateId s) =
      s\<lparr>hasSubmittedRef := True, isSubmitting := True, error := Some (Submit_failed e),
        hasSubmittedRef := False, isSubmitting := False\<rparr>"
    by (simp add: submitTest_def Let_def submitTest_try_latch_free)
  have same: "submitTest_try w' candidateId (fst (submitTest w candidateId s)) =
      submitTest_try w' candidateId s"
    unfolding after by (simp add: submitTest_try_def split: option.splits sum.splits)
  have "\<not> hasSubmittedRef (fst (submitTest w candidateId s))"
    unfolding after by simp
  then show "snd (submitTest w' candidateId (fst (submitTest w candidateId s))) =
          fst (submitTest_try w' candidateId s)"
    by (cases "submitTest_try w' candidateId s")
       (auto simp: submitTest_def [of w'] Let_def submitTest_try_latch_free same
          split: option.splits)
qed

lemma questionsList_complete:
  "\<forall>q\<in>set qs. ans (q_id q) \<noteq> None \<Longrightarrow>
   \<exists>es. questionsList ans qs = Inr es \<and> length es = length qs
        \<and> (\<forall>i<length qs. build_entry ans (qs ! i) = Inr (es ! i))"
proof (induction qs)
  case Nil
  then show ?case by simp
next
  case (Cons q qs)
  then obtain es where es: "questionsList ans qs = Inr es" "length es = length qs"
      "\<forall>i<length qs. build_entry ans (qs ! i) = Inr (es ! i)"
    by auto
  from Cons.prems obtain a where a: "ans (q_id q) = Some a" by auto
  then have "\<exists>e. build_entry ans q = Inr e"
    by (cases "qtype q") (auto simp: build_entry_def Let_def)
  then obtain e where e: "build_entry ans q = Inr e" ..
  have "\<forall>i<length (q # qs). build_entry ans ((q # qs) ! i) = Inr ((e # es) ! i)"
    using es(3) e by (auto simp: nth_Cons split: nat.splits)
  with es e show ?case by simp
qed

lemma build_entry_fields:
  "build_entry ans q = Inr e \<Longrightarrow> ans (q_id q) = Some a \<Longrightarrow>
   e_id e = q_id q \<and> e_text e = q_text q \<and> e_category e = category q \<and> e_type e = qtype q
   \<and> e_options e = options q \<and> e_variation e = variation q
   \<and> resposta e = Some (if qtype q = Choice \<and> variation q = Some Most_least
                         then MostLeast (ans_most a) (ans_least a) else a)"
  by (cases "qtype q") (auto simp: build_entry_def Let_def split: if_splits)

text \<open>
  Claim C8. For a test with a non-empty question list and an answer recorded for every
  question, \<^verbatim>\<open>submitTest\<close> first posts a payload whose \<^verbatim>\<open>body\<close> has one entry per
  question, in the order of the question list; each entry carries the question's id,
  text, category, type, options and variation, and its \<^verbatim>\<open>resposta\<close> is the recorded
  answer, or the pair of the recorded answer's \<^verbatim>\<open>most\<close> and \<^verbatim>\<open>least\<close> for a
  most/least question. For an empty question list nothing is sent and the error of the
  empty test is stored.
\<close>

theorem submitTest_payload_body:
  "(\<not> hasSubmittedRef s \<and> test s = Some t \<and> questions t \<noteq> []
      \<and> (\<forall>q\<in>set (questions t). answers s (q_id q) \<noteq> None) \<longrightarrow>
      (\<exists>p rest. snd (submitTest w candidateId s) = Webhook_post p # rest
         \<and> length (body p) = length (questions t)
         \<and> (\<forall>i<length (questions t).
               e_id (body p ! i) = q_id (questions t ! i)
               \<and> e_text (body p ! i) = q_text (questions t ! i)
               \<and> e_category (body p ! i) = category (questions t ! i)
               \<and> e_type (body p ! i) = qtype (questions t ! i)
               \<and> e_options (body p ! i) = options (questions t ! i)
               \<and> e_variation (body p ! i) = variation (questions t ! i)
               \<and> resposta (body p ! i) =
                   Some (if qtype (questions t ! i) = Choice
                            \<and> variation (questions t ! i) = Some Most_least
                         then MostLeast
                                (ans_most (the (answers s (q_id (questions t ! i)))))
                                (ans_least (the (answers s (q_id (questions t ! i)))))
                         else the (answers s (q_id (questions t ! i)))))))
   \<and> (\<not> hasSubmittedRef s \<and> test s = Some t \<and> questions t = [] \<longrightarrow>
        snd (submitTest w candidateId s) = []
        \<and> error (fst (submitTest w candidateId s)) = Some (Submit_failed Empty_test))"
  (is "(?full \<longrightarrow> (\<exists>p rest. ?sent p rest \<and> ?len p \<and> (\<forall>i<length (questions t). ?entry p i)))
       \<and> (?empty \<longrightarrow> ?none)")
proof (rule conjI; rule impI)
  assume a: ?full
  then obtain es where es: "questionsList (answers s) (questions t) = Inr es"
      "length es = length (questions t)"
      "\<forall>i<length (questions t). build_entry (answers s) (questions t ! i) = Inr (es ! i)"
    using questionsList_complete [of "questions t" "answers s"] by auto
  define p where "p = finalPayload t candidateId (candidateEmail s) es"
  have ne: "es \<noteq> []" using a es(2) by auto
  have sent: "\<exists>rest. ?sent p rest"
    using a es(1) ne
    by (auto simp: submitTest_def submitTest_try_def Let_def p_def
          split: fetch_outcome.splits option.splits)
  have b: "body p = es" by (simp add: p_def finalPayload_def)
  have "?entry p i" if i: "i < length (questions t)" for i
  proof -
    from i have "questions t ! i \<in> set (questions t)" by simp
    with a obtain x where x: "answers s (q_id (questions t ! i)) = Some x" by auto
    from es(3) i have "build_entry (answers s) (questions t ! i) = Inr (es ! i)" by simp
    from build_entry_fields [OF this x] x b show ?thesis by simp
  qed
  with sent b es(2) show "\<exists>p rest. ?sent p rest \<and> ?len p \<and> (\<forall>i<length (questions t). ?entry p i)"
    by auto
next
  assume a: ?empty
  then show ?none
    by (simp add: submitTest_def submitTest_try_def Let_def)
qed

lemma dom_apply_update: "dom (apply_update tbl rid cols) = dom tbl"
  by (auto simp: apply_update_def split: option.splits)

lemma dom_apply_request: "dom (apply_request tbl r) = dom tbl"
  by (cases r) (simp_all add: dom_apply_update)

lemma dom_apply_requests: "dom (foldl apply_request tbl reqs) = dom tbl"
  by (induction reqs arbitrary: tbl) (simp_all add: dom_apply_request)

text \<open>
  Claim C9. With an \<^verbatim>\<open>editingId\<close>, \<^verbatim>\<open>handleSave\<close> sends one request: the update of
  that profile's \<^verbatim>\<open>name\<close> and \<^verbatim>\<open>assigned_test_id\<close>. Applied to the table, the update
  sets these two columns of that row and leaves its email, status, score, completion date
  and role, and every other row, unchanged. No sequence of requests of this code removes a
  row from the table.
\<close>

theorem handleSave_edit_frame:
  "(editingId s = Some eid \<and> eid \<noteq> [] \<longrightarrow>
      snd (handleSave aw s) =
        [Update_profile eid
           [Set_name (f_name (formData s)), Set_assigned_test_id (testId_or_null (formData s))]])
   \<and> (tbl eid = Some r \<longrightarrow>
        (\<exists>r'. apply_update tbl eid (edit_update fd) eid = Some r'
           \<and> p_name r' = f_name fd \<and> p_assigned_test_id r' = testId_or_null fd
           \<and> p_email r' = p_email r \<and> p_status r' = p_status r \<and> p_score r' = p_score r
           \<and> p_completed_date r' = p_completed_date r \<and> p_role r' = p_role r))
   \<and> (\<forall>other. other \<noteq> eid \<longrightarrow> apply_update tbl eid (edit_update fd) other = tbl other)
   \<and> dom tbl \<subseteq> dom (foldl apply_request tbl reqs)"
proof (intro conjI impI allI)
  assume "editingId s = Some eid \<and> eid \<noteq> []"
  then show "snd (handleSave aw s) =
        [Update_profile eid
           [Set_name (f_name (formData s)), Set_assigned_test_id (testId_or_null (formData s))]]"
    by (auto simp: handleSave_def handleSave_try_def edit_update_def Let_def
          split: option.splits)
next
  assume "tbl eid = Some r"
  then show "\<exists>r'. apply_update tbl eid (edit_update fd) eid = Some r'
           \<and> p_name r' = f_name fd \<and> p_assigned_test_id r' = testId_or_null fd
           \<and> p_email r' = p_email r \<and> p_status r' = p_status r \<and> p_score r' = p_score r
           \<and> p_completed_date r' = p_completed_date r \<and> p_role r' = p_role r"
    by (simp add: apply_update_def edit_update_def)
next
  fix other assume "other \<noteq> eid"
  then show "apply_update tbl eid (edit_update fd) other = tbl other"
    by (simp add: apply_update_def split: option.splits)
next
  show "dom tbl \<subseteq> dom (foldl apply_request tbl reqs)"
    by (simp add: dom_apply_requests)
qed

theorem handleMostLeast_sides_differ_witness:
  "same_text (ans_least (currentAnswer answers_q3 ''q3'')) option_A
   \<and> ans_least (currentAnswer (handleMostLeast ''q3'' Most option_A answers_q3) ''q3'') = None
   \<and> same_text (ans_most (currentAnswer answers_q3 ''q3'')) option_B
   \<and> ans_most (currentAnswer (handleMostLeast ''q3'' Least option_B answers_q3) ''q3'') = None
   \<and> ''q1'' \<noteq> ''q3''
   \<and> handleMostLeast ''q3'' Most option_A answers_q3 ''q1'' = answers_q3 ''q1''"
proof -
  have h1: "same_text (ans_least (currentAnswer answers_q3 ''q3'')) option_A"
    by (simp add: same_text_def currentAnswer_def answers_q3_def)
  have h2: "same_text (ans_most (currentAnswer answers_q3 ''q3'')) option_B"
    by (simp add: same_text_def currentAnswer_def answers_q3_def)
  have h3: "''q1'' \<noteq> ''q3''" by simp
  note m = handleMostLeast_sides_differ [of "''q3''" Most option_A answers_q3]
  note l = handleMostLeast_sides_differ [of "''q3''" Least option_B answers_q3]
  have c1: "ans_least (currentAnswer (handleMostLeast ''q3'' Most option_A answers_q3) ''q3'') = None"
    using m [THEN conjunct2, THEN conjunct2, THEN conjunct2, THEN conjunct1] h1 by (rule mp)
  have c2: "ans_most (currentAnswer (handleMostLeast ''q3'' Least option_B answers_q3) ''q3'') = None"
    using l [THEN conjunct2, THEN conjunct2, THEN conjunct2, THEN conjunct2, THEN conjunct1] h2
    by (rule mp)
  have c3: "handleMostLeast ''q3'' Most option_A answers_q3 ''q1'' = answers_q3 ''q1''"
    using m [THEN conjunct2, THEN conjunct2, THEN conjunct2, THEN conjunct2, THEN conjunct2,
             THEN spec, of "''q1''"] h3
    by (rule mp)
  from h1 h2 h3 c1 c2 c3 show ?thesis by (intro conjI)
qed

theorem canProceed_iff_completion_witness:
  "test state_q3 = Some (test_T1\<lparr>questions := [question_3]\<rparr>)
   \<and> currentStep state_q3 < length (questions (test_T1\<lparr>questions := [question_3]\<rparr>))
   \<and> \<not> completion_predicate question_3 (answers state_q3 ''q3'')
   \<and> canProceed (test state_q3) (currentStep state_q3) (answers state_q3) \<noteq> Inr (JS_boolean True)
   \<and> click_next world_online ''u1'' state_q3 = (state_q3, [])"
proof -
  have h1: "test state_q3 = Some (test_T1\<lparr>questions := [question_3]\<rparr>)"
    by (simp add: state_q3_def state_T1_def)
  have h2: "currentStep state_q3 < length (questions (test_T1\<lparr>questions := [question_3]\<rparr>))"
    by (simp add: state_q3_def state_T1_def)
  have q: "questions (test_T1\<lparr>questions := [question_3]\<rparr>) ! currentStep state_q3 = question_3"
    by (simp add: state_q3_def state_T1_def)
  have i: "q_id question_3 = ''q3''" by (simp add: question_3_def)
  have h3: "\<not> completion_predicate question_3 (answers state_q3 ''q3'')"
    by (simp add: completion_predicate_def question_3_def state_q3_def state_T1_def)
  note t = canProceed_iff_completion [OF h1 h2, of world_online "''u1''", unfolded q i]
  from t h3 have c1: "click_next world_online ''u1'' state_q3 = (state_q3, [])"
    by blast
  from t h3 have c2:
    "canProceed (test state_q3) (currentStep state_q3) (answers state_q3) \<noteq> Inr (JS_boolean True)"
    by blast
  from h1 h2 h3 c1 c2 show ?thesis by blast
qed

theorem loadSession_already_taken_witness:
  "select_profile world_online ''u1'' = Inr profile_done
   \<and> (p_status profile_done = Completed \<or> p_status profile_done = In_progress)
   \<and> render (fst (loadSession world_online ''u1'' state_T1)) = Inr Already_taken_screen
   \<and> snd (loadSession world_online ''u1'' state_T1) = [Select_profile ''u1'']"
proof -
  have h1: "select_profile world_online ''u1'' = Inr profile_done"
    by (simp add: world_online_def)
  have h2: "p_status profile_done = Completed \<or> p_status profile_done = In_progress"
    by (simp add: profile_done_def)
  from loadSession_already_taken [OF h1 h2, of state_T1] h1 h2 show ?thesis by blast
qed

lemma questionsList_T1: "questionsList answers_T1 [question_1, question_2] = Inr body_T1"
  by (simp add: answers_T1_def question_1_def question_2_def build_entry_def Let_def
        handleSingleChoice_def handleScaleAnswer_def option_B_def body_T1_def)

lemma finalPayload_T1: "finalPayload test_T1 ''u1'' ''ana@example.com'' body_T1 = payload_T1"
  by (simp add: finalPayload_def test_T1_def payload_T1_def)

lemma state_T1_fields:
  "test state_T1 = Some test_T1" "answers state_T1 = answers_T1"
  "candidateEmail state_T1 = ''ana@example.com''" "\<not> hasSubmittedRef state_T1"
  "questions test_T1 = [question_1, question_2]"
  by (simp_all add: state_T1_def test_T1_def)

lemma body_T1_not_empty: "body_T1 \<noteq> []"
  by (simp add: body_T1_def)

lemma world_online_fields:
  "webhook world_online p = Resolved 200" "update_profile world_online i c = None"
  "today world_online = ''2024-05-02''"
  by (simp_all add: world_online_def)

lemma world_offline_fields:
  "webhook world_offline p = Rejected" "today world_offline = ''2024-05-02''"
  by (simp_all add: world_offline_def world_online_def)

lemma submitTest_try_T1_online:
  "submitTest_try world_online ''u1'' state_T1 =
     ([Webhook_post payload_T1, Update_profile ''u1'' (completed_update world_online),
       Schedule_onComplete], None)"
  unfolding submitTest_try_def
  by (simp only: state_T1_fields questionsList_T1 finalPayload_T1 world_online_fields
        body_T1_not_empty option.case sum.case if_False Let_def fetch_outcome.case)

lemma world_http_500_fields:
  "webhook world_http_500 p = Resolved 500" "update_profile world_http_500 i c = None"
  "today world_http_500 = ''2024-05-02''"
  by (simp_all add: world_http_500_def world_online_def)

lemma submitTest_try_T1_http_500:
  "submitTest_try world_http_500 ''u1'' state_T1 =
     ([Webhook_post payload_T1,
       Update_profile ''u1'' [Set_status Completed, Set_completed_date (Some ''2024-05-02'')],
       Schedule_onComplete], None)"
  unfolding submitTest_try_def
  by (simp only: state_T1_fields questionsList_T1 finalPayload_T1 world_http_500_fields
        body_T1_not_empty option.case sum.case if_False Let_def fetch_outcome.case
        completed_update_def)

lemma submitTest_try_T1_offline:
  "submitTest_try world_offline ''u1'' state_T1 = ([Webhook_post payload_T1], Some Webhook_failed)"
  unfolding submitTest_try_def
  by (simp only: state_T1_fields questionsList_T1 finalPayload_T1 world_offline_fields
        body_T1_not_empty option.case sum.case if_False Let_def fetch_outcome.case)

lemma submitTest_T1_online:
  "snd (submitTest world_online ''u1'' state_T1) =
     [Webhook_post payload_T1, Update_profile ''u1'' (completed_update world_online),
      Schedule_onComplete]"
  by (simp add: submitTest_def Let_def submitTest_try_latch_free submitTest_try_T1_online
        state_T1_fields)

theorem submitTest_webhook_then_profile_witness:
  "Update_profile ''u1'' (completed_update world_online)
     \<in> set (snd (submitTest world_online ''u1'' state_T1))
   \<and> take 2 (snd (submitTest world_online ''u1'' state_T1)) =
       [Webhook_post payload_T1,
        Update_profile ''u1'' [Set_status Completed, Set_completed_date (Some ''2024-05-02'')]]
   \<and> webhook world_offline payload_T1 = Rejected
   \<and> snd (submitTest world_offline ''u1'' state_T1) = [Webhook_post payload_T1]
   \<and> foldl apply_request profiles_pending (snd (submitTest world_offline ''u1'' state_T1)) =
       profiles_pending
   \<and> webhook world_online payload_T1 = Resolved 200"
proof -
  have h1: "Update_profile ''u1'' (completed_update world_online)
     \<in> set (snd (submitTest world_online ''u1'' state_T1))"
    by (simp add: submitTest_T1_online)
  have h2: "\<not> hasSubmittedRef state_T1 \<and> test state_T1 = Some test_T1
         \<and> questionsList (answers state_T1) (questions test_T1) = Inr body_T1 \<and> body_T1 \<noteq> []
         \<and> webhook world_offline (finalPayload test_T1 ''u1'' (candidateEmail state_T1) body_T1)
             = Rejected"
    by (simp only: state_T1_fields questionsList_T1 body_T1_not_empty world_offline_fields
          simp_thms)
  have h3: "\<not> hasSubmittedRef state_T1 \<and> test state_T1 = Some test_T1
         \<and> questionsList (answers state_T1) (questions test_T1) = Inr body_T1 \<and> body_T1 \<noteq> []
         \<and> webhook world_online (finalPayload test_T1 ''u1'' (candidateEmail state_T1) body_T1)
             = Resolved 200"
    by (simp only: state_T1_fields questionsList_T1 body_T1_not_empty world_online_fields
          simp_thms)
  note on = submitTest_webhook_then_profile [of world_online "''u1''" state_T1,
      THEN conjunct1, THEN spec, THEN spec, THEN mp, OF h1]
  note off = submitTest_webhook_then_profile [of world_offline "''u1''" state_T1,
      THEN conjunct2, THEN conjunct1, THEN spec, THEN spec, THEN mp, OF h2]
  note on2 = submitTest_webhook_then_profile [of world_online "''u1''" state_T1,
      THEN conjunct2, THEN conjunct2, THEN spec, THEN spec, THEN spec, THEN mp, OF h3]
  from on have c1: "take 2 (snd (submitTest world_online ''u1'' state_T1)) =
       [Webhook_post payload_T1,
        Update_profile ''u1'' [Set_status Completed, Set_completed_date (Some ''2024-05-02'')]]"
    by (auto simp only: state_T1_fields questionsList_T1 finalPayload_T1
          world_online_fields option.inject sum.inject)
  from off [THEN conjunct1]
  have c2: "snd (submitTest world_offline ''u1'' state_T1) = [Webhook_post payload_T1]"
    by (simp add: state_T1_fields finalPayload_T1)
  from off [THEN conjunct2, THEN conjunct1, THEN spec, of profiles_pending]
  have c4: "foldl apply_request profiles_pending (snd (submitTest world_offline ''u1'' state_T1)) =
      profiles_pending" .
  from on2 have c3: "take 2 (snd (submitTest world_online ''u1'' state_T1)) =
       [Webhook_post payload_T1,
        Update_profile ''u1'' [Set_status Completed, Set_completed_date (Some ''2024-05-02'')]]"
    by (simp only: state_T1_fields finalPayload_T1 world_online_fields)
  from h1 c3 world_offline_fields(1) [of payload_T1] c2 c4 world_online_fields(1) [of payload_T1]
  show ?thesis by (intro conjI)
qed

text \<open>
  Claim C1, as the specification words it, fails on the code. The webhook answers the
  post of test T1's payload with the status 500, which is not a delivery that succeeds;
  \<^verbatim>\<open>submitTest\<close> then issues the profile update all the same, the row of the
  candidate passes from \<^verbatim>\<open>pending\<close> to \<^verbatim>\<open>completed\<close>, and the completion screen is
  shown.
\<close>

theorem submitTest_http_500_completes_profile:
  "webhook world_http_500 payload_T1 = Resolved 500
   \<and> \<not> delivery_succeeds (webhook world_http_500 payload_T1)
   \<and> snd (submitTest world_http_500 ''u1'' state_T1) =
       [Webhook_post payload_T1,
        Update_profile ''u1'' [Set_status Completed, Set_completed_date (Some ''2024-05-02'')],
        Schedule_onComplete]
   \<and> isCompleted (fst (submitTest world_http_500 ''u1'' state_T1))
   \<and> map_option p_status (profiles_pending ''u1'') = Some Pending
   \<and> map_option p_status
        (foldl apply_request profiles_pending
           (snd (submitTest world_http_500 ''u1'' state_T1)) ''u1'') = Some Completed"
proof -
  have w: "webhook world_http_500 payload_T1 = Resolved 500"
    by (rule world_http_500_fields)
  have d: "\<not> delivery_succeeds (webhook world_http_500 payload_T1)"
    by (simp add: w delivery_succeeds_def)
  have r: "snd (submitTest world_http_500 ''u1'' state_T1) =
       [Webhook_post payload_T1,
        Update_profile ''u1'' [Set_status Completed, Set_completed_date (Some ''2024-05-02'')],
        Schedule_onComplete]"
    by (simp add: submitTest_def Let_def submitTest_try_latch_free submitTest_try_T1_http_500
          state_T1_fields)
  have c: "isCompleted (fst (submitTest world_http_500 ''u1'' state_T1))"
    by (simp add: submitTest_def Let_def submitTest_try_latch_free submitTest_try_T1_http_500
          state_T1_fields)
  have p: "map_option p_status (profiles_pending ''u1'') = Some Pending"
    by (simp add: profiles_pending_def)
  have q: "map_option p_status
        (foldl apply_request profiles_pending
           (snd (submitTest world_http_500 ''u1'' state_T1)) ''u1'') = Some Completed"
    by (simp add: r profiles_pending_def apply_update_def)
  from w d r c p q show ?thesis by (intro conjI)
qed

theorem submitTest_latch_witness:
  "submitTest world_online ''u1'' (state_T1\<lparr>hasSubmittedRef := True\<rparr>) =
     (state_T1\<lparr>hasSubmittedRef := True\<rparr>, [])
   \<and> \<not> hasSubmittedRef (fst (submitTest world_offline ''u1'' state_T1))
   \<and> hasSubmittedRef (fst (submitTest world_online ''u1'' state_T1))
   \<and> snd (submitTest world_online ''u1'' (fst (submitTest world_offline ''u1'' state_T1))) =
       [Webhook_post payload_T1, Update_profile ''u1'' (completed_update world_online),
        Schedule_onComplete]"
proof -
  have h1: "hasSubmittedRef (state_T1\<lparr>hasSubmittedRef := True\<rparr>)" by simp
  have h2: "\<not> hasSubmittedRef state_T1" by (rule state_T1_fields)
  have c1: "submitTest world_online ''u1'' (state_T1\<lparr>hasSubmittedRef := True\<rparr>) =
     (state_T1\<lparr>hasSubmittedRef := True\<rparr>, [])"
    using submitTest_latch [of "state_T1\<lparr>hasSubmittedRef := True\<rparr>" world_online "''u1''",
        THEN conjunct1] h1
    by (rule mp)
  have c2: "\<not> hasSubmittedRef (fst (submitTest world_offline ''u1'' state_T1))"
    using submitTest_latch [of state_T1 world_offline "''u1''", THEN conjunct2, THEN conjunct1,
        THEN mp, OF h2]
    by (simp add: submitTest_try_T1_offline)
  have c3: "hasSubmittedRef (fst (submitTest world_online ''u1'' state_T1))"
    using submitTest_latch [of state_T1 world_online "''u1''", THEN conjunct2, THEN conjunct1,
        THEN mp, OF h2]
    by (simp add: submitTest_try_T1_online)
  have h3: "\<not> hasSubmittedRef state_T1 \<and> snd (submitTest_try world_offline ''u1'' state_T1) \<noteq> None"
    using h2 by (simp add: submitTest_try_T1_offline)
  have c4: "snd (submitTest world_online ''u1'' (fst (submitTest world_offline ''u1'' state_T1))) =
      [Webhook_post payload_T1, Update_profile ''u1'' (completed_update world_online),
       Schedule_onComplete]"
    using submitTest_latch [of state_T1 world_offline "''u1''" world_online, THEN conjunct2,
        THEN conjunct2, THEN mp, OF h3]
    by (simp add: submitTest_try_T1_online)
  from c1 c2 c3 c4 show ?thesis by (intro conjI)
qed

lemma answers_T1_values:
  "answers_T1 ''q1'' = Some (Chosen \<lparr>o_text = ''4'', o_value = ''4''\<rparr>)"
  "answers_T1 ''q2'' = Some (Chosen option_B)"
  by (simp_all add: answers_T1_def handleSingleChoice_def handleScaleAnswer_def option_B_def)

theorem submitTest_payload_body_witness:
  "(\<not> hasSubmittedRef state_T1 \<and> test state_T1 = Some test_T1
      \<and> questions test_T1 = [question_1, question_2]
      \<and> answers state_T1 (q_id question_1) \<noteq> None
      \<and> answers state_T1 (q_id question_2) \<noteq> None)
   \<and> (\<exists>p rest. snd (submitTest world_online ''u1'' state_T1) = Webhook_post p # rest
         \<and> length (body p) = 2
         \<and> e_id (body p ! 0) = ''q1''
         \<and> resposta (body p ! 0) = Some (Chosen \<lparr>o_text = ''4'', o_value = ''4''\<rparr>)
         \<and> e_id (body p ! 1) = ''q2''
         \<and> resposta (body p ! 1) = Some (Chosen option_B))
   \<and> (\<not> hasSubmittedRef state_empty \<and> test state_empty = Some (test_T1\<lparr>questions := []\<rparr>)
        \<and> questions (test_T1\<lparr>questions := []\<rparr>) = [])
   \<and> snd (submitTest world_online ''u1'' state_empty) = []
   \<and> error (fst (submitTest world_online ''u1'' state_empty)) = Some (Submit_failed Empty_test)"
proof -
  have ids: "q_id question_1 = ''q1''" "q_id question_2 = ''q2''"
    "qtype question_1 = Scale" "variation question_2 = Some Single"
    by (simp_all add: question_1_def question_2_def)
  have h1: "\<not> hasSubmittedRef state_T1 \<and> test state_T1 = Some test_T1 \<and> questions test_T1 \<noteq> []
      \<and> (\<forall>q\<in>set (questions test_T1). answers state_T1 (q_id q) \<noteq> None)"
    by (simp add: state_T1_fields ids answers_T1_values)
  have h2: "\<not> hasSubmittedRef state_empty \<and> test state_empty = Some (test_T1\<lparr>questions := []\<rparr>)
        \<and> questions (test_T1\<lparr>questions := []\<rparr>) = []"
    by (simp add: state_empty_def state_T1_fields)
  from submitTest_payload_body [of state_T1 test_T1 world_online "''u1''",
      THEN conjunct1, THEN mp, OF h1]
  obtain p rest where p: "snd (submitTest world_online ''u1'' state_T1) = Webhook_post p # rest"
      "length (body p) = length (questions test_T1)"
      and entries: "\<forall>i<length (questions test_T1).
         e_id (body p ! i) = q_id (questions test_T1 ! i)
         \<and> e_text (body p ! i) = q_text (questions test_T1 ! i)
         \<and> e_category (body p ! i) = category (questions test_T1 ! i)
         \<and> e_type (body p ! i) = qtype (questions test_T1 ! i)
         \<and> e_options (body p ! i) = options (questions test_T1 ! i)
         \<and> e_variation (body p ! i) = variation (questions test_T1 ! i)
         \<and> resposta (body p ! i) =
             Some (if qtype (questions test_T1 ! i) = Choice
                      \<and> variation (questions test_T1 ! i) = Some Most_least
                   then MostLeast
                          (ans_most (the (answers state_T1 (q_id (questions test_T1 ! i)))))
                          (ans_least (the (answers state_T1 (q_id (questions test_T1 ! i)))))
                   else the (answers state_T1 (q_id (questions test_T1 ! i))))"
    by blast
  from entries [THEN spec, of 0] have e0:
    "e_id (body p ! 0) = ''q1''"
    "resposta (body p ! 0) = Some (Chosen \<lparr>o_text = ''4'', o_value = ''4''\<rparr>)"
    by (simp_all add: state_T1_fields ids answers_T1_values)
  from entries [THEN spec, of 1] have e1:
    "e_id (body p ! 1) = ''q2''"
    "resposta (body p ! 1) = Some (Chosen option_B)"
    by (simp_all add: state_T1_fields ids answers_T1_values)
  from p have c1: "\<exists>p rest. snd (submitTest world_online ''u1'' state_T1) = Webhook_post p # rest
         \<and> length (body p) = 2
         \<and> e_id (body p ! 0) = ''q1''
         \<and> resposta (body p ! 0) = Some (Chosen \<lparr>o_text = ''4'', o_value = ''4''\<rparr>)
         \<and> e_id (body p ! 1) = ''q2''
         \<and> resposta (body p ! 1) = Some (Chosen option_B)"
    using e0 e1 by (auto simp: state_T1_fields)
  note c2 = submitTest_payload_body [of state_empty "test_T1\<lparr>questions := []\<rparr>" world_online
      "''u1''", THEN conjunct2, THEN mp, OF h2]
  have h0: "\<not> hasSubmittedRef state_T1 \<and> test state_T1 = Some test_T1
      \<and> questions test_T1 = [question_1, question_2]
      \<and> answers state_T1 (q_id question_1) \<noteq> None
      \<and> answers state_T1 (q_id question_2) \<noteq> None"
    by (simp add: state_T1_fields ids answers_T1_values)
  from h0 c1 h2 c2 show ?thesis by (intro conjI) blast+
qed

theorem handleSave_edit_frame_witness:
  "(editingId roster_1 = Some ''u1'' \<and> ''u1'' \<noteq> [])
   \<and> snd (handleSave admin_world_1 roster_1) =
       [Update_profile ''u1'' [Set_name ''Ana Maria'', Set_assigned_test_id (Some ''T1'')]]
   \<and> profiles_1 ''u1'' = Some profile_done
   \<and> (\<exists>r'. apply_update profiles_1 ''u1'' (edit_update form_1) ''u1'' = Some r'
         \<and> p_name r' = ''Ana Maria'' \<and> p_assigned_test_id r' = Some ''T1''
         \<and> p_email r' = Some ''ana@example.com'' \<and> p_status r' = Completed
         \<and> p_score r' = Some 7 \<and> p_completed_date r' = Some ''2024-05-01'')
   \<and> ''u2'' \<noteq> ''u1''
   \<and> apply_update profiles_1 ''u1'' (edit_update form_1) ''u2'' = profiles_1 ''u2''"
proof -
  have h1a: "editingId roster_1 = Some ''u1''" by (simp add: roster_1_def)
  have h1b: "''u1'' \<noteq> []" by simp
  from h1a h1b have h1: "editingId roster_1 = Some ''u1'' \<and> ''u1'' \<noteq> []" by (rule conjI)
  have h2: "profiles_1 ''u1'' = Some profile_done"
    by (simp add: profiles_1_def)
  have h3: "''u2'' \<noteq> ''u1''" by simp
  note t = handleSave_edit_frame [of roster_1 "''u1''" admin_world_1 profiles_1 profile_done form_1]
  have fd: "f_name (formData roster_1) = ''Ana Maria''"
    "testId_or_null (formData roster_1) = Some ''T1''"
    "f_name form_1 = ''Ana Maria''" "testId_or_null form_1 = Some ''T1''"
    by (simp_all add: roster_1_def form_1_def testId_or_null_def)
  have pd: "p_email profile_done = Some ''ana@example.com''" "p_status profile_done = Completed"
    "p_score profile_done = Some 7" "p_completed_date profile_done = Some ''2024-05-01''"
    by (simp_all add: profile_done_def)
  from t [THEN conjunct1, THEN mp, OF h1] have c1:
    "snd (handleSave admin_world_1 roster_1) =
       [Update_profile ''u1'' [Set_name ''Ana Maria'', Set_assigned_test_id (Some ''T1'')]]"
    by (simp only: fd)
  from t [THEN conjunct2, THEN conjunct1, THEN mp, OF h2] have c2:
    "\<exists>r'. apply_update profiles_1 ''u1'' (edit_update form_1) ''u1'' = Some r'
         \<and> p_name r' = ''Ana Maria'' \<and> p_assigned_test_id r' = Some ''T1''
         \<and> p_email r' = Some ''ana@example.com'' \<and> p_status r' = Completed
         \<and> p_score r' = Some 7 \<and> p_completed_date r' = Some ''2024-05-01''"
    by (auto simp only: fd pd)
  from t [THEN conjunct2, THEN conjunct2, THEN conjunct1, THEN spec, of "''u2''", THEN mp, OF h3]
  have c3: "apply_update profiles_1 ''u1'' (edit_update form_1) ''u2'' = profiles_1 ''u2''" .
  from h1a h1b c1 h2 c2 h3 c3 show ?thesis by (intro conjI)
qed

section \<open>Properties of the result viewer\<close>

subsection \<open>Reading back a quoted string\<close>

lemma hexval_hexdigit: "n < 16 \<Longrightarrow> hexval (hexdigit n) = Some n"
  by (auto simp: hexval_def hexdigit_def)

lemma hex_digits_value:
  assumes "c < 65536"
  shows "4096 * (c div 4096 mod 16) + 256 * (c div 256 mod 16) + 16 * (c div 16 mod 16)
          + c mod 16 = (c::nat)"
proof -
  have d1: "c div 256 = c div 16 div 16" and d2: "c div 4096 = c div 16 div 16 div 16"
    by (simp_all add: div_mult2_eq [symmetric])
  have top: "c div 16 div 16 div 16 < 16"
    using assms by (simp add: div_mult2_eq [symmetric])
  have e0: "c = 16 * (c div 16) + c mod 16" by simp
  have e1: "c div 16 = 16 * (c div 16 div 16) + c div 16 mod 16" by simp
  have e2: "c div 16 div 16 = 16 * (c div 16 div 16 div 16) + c div 16 div 16 mod 16" by simp
  have e3: "c div 16 div 16 div 16 mod 16 = c div 16 div 16 div 16" using top by simp
  show ?thesis
    unfolding d1 d2 e3 using e0 e1 e2 by linarith
qed

lemma hex4_hex4_of:
  assumes "c < 65536"
  shows "hex4 (hexdigit (c div 4096 mod 16)) (hexdigit (c div 256 mod 16))
           (hexdigit (c div 16 mod 16)) (hexdigit (c mod 16)) = Some c"
proof -
  have h: "hexval (hexdigit (c div 4096 mod 16)) = Some (c div 4096 mod 16)"
    "hexval (hexdigit (c div 256 mod 16)) = Some (c div 256 mod 16)"
    "hexval (hexdigit (c div 16 mod 16)) = Some (c div 16 mod 16)"
    "hexval (hexdigit (c mod 16)) = Some (c mod 16)"
    by (rule hexval_hexdigit, simp)+
  show ?thesis
    unfolding hex4_def h
    by (simp only: prod.case option.case hex_digits_value [OF assms])
qed

lemma next_unit_escape_unit: "next_unit (escape_unit c @ xs) = Some (c, xs)"
proof -
  consider "c < 32" | "is_high c \<or> is_low c" | "32 \<le> c \<and> \<not> is_high c \<and> \<not> is_low c"
    by fastforce
  then show ?thesis
  proof cases
    case 1
    then have "c < 65536" by simp
    from hex4_hex4_of [OF this] 1 show ?thesis
      by (simp add: next_unit_def escape_unit_def hex4_of_def unescape_def)
  next
    case 2
    then have "c < 65536" "32 \<le> c" "c \<noteq> 34" "c \<noteq> 92"
      by (auto simp: is_high_def is_low_def)
    with hex4_hex4_of [of c] 2 show ?thesis
      by (simp add: next_unit_def escape_unit_def hex4_of_def unescape_def)
  next
    case 3
    then show ?thesis
      by (simp add: next_unit_def escape_unit_def unescape_def)
  qed
qed

lemma escape_unit_not_quote: "escape_unit c \<noteq> [] \<and> hd (escape_unit c) \<noteq> 34"
  by (simp add: escape_unit_def)

lemma string_body_escape_unit:
  "string_body (escape_unit c @ xs) = cons_unit c (string_body xs)"
proof -
  obtain e es where e: "escape_unit c = e # es" "e \<noteq> 34"
    using escape_unit_not_quote [of c] by (cases "escape_unit c") auto
  have "next_unit (e # es @ xs) = Some (c, xs)"
    using next_unit_escape_unit [of c xs] e by simp
  then show ?thesis
    using e by (simp add: string_body.simps [of "e # es @ xs"])
qed

lemma string_body_literal_pair:
  assumes "is_high c" "is_low d"
  shows "string_body (c # d # xs) = cons_unit c (cons_unit d (string_body xs))"
proof -
  from assms have c: "c \<noteq> 34" "c \<noteq> 92" "\<not> c < 32" and d: "d \<noteq> 34" "d \<noteq> 92" "\<not> d < 32"
    by (auto simp: is_high_def is_low_def)
  have "string_body (d # xs) = cons_unit d (string_body xs)"
    using d by (simp add: string_body.simps [of "d # xs"] next_unit_def)
  moreover have "string_body (c # d # xs) = cons_unit c (string_body (d # xs))"
    using c by (simp add: string_body.simps [of "c # d # xs"] next_unit_def)
  ultimately show ?thesis by simp
qed

lemma string_body_quote_body:
  "string_body (quote_body s @ 34 # rest) = Some (s, rest)"
proof (induction s rule: quote_body.induct)
  case 1
  then show ?case by (simp add: string_body.simps [of "34 # rest"])
next
  case (2 c)
  have "string_body (34 # rest) = Some ([], rest)"
    by (simp add: string_body.simps [of "34 # rest"])
  then show ?case
    by (simp add: string_body_escape_unit cons_unit_def)
next
  case (3 c d cs)
  show ?case
  proof (cases "is_high c \<and> is_low d")
    case True
    with 3 show ?thesis by (simp add: string_body_literal_pair cons_unit_def)
  next
    case False
    with 3 have ih: "string_body (quote_body (d # cs) @ 34 # rest) = Some (d # cs, rest)"
      by simp
    from False have "quote_body (c # d # cs) = escape_unit c @ quote_body (d # cs)"
      by auto
    then show ?thesis
      by (simp only: append_assoc string_body_escape_unit ih) (simp add: cons_unit_def)
  qed
qed

subsection \<open>Number tokens\<close>

lemma scan_int_consumes: "scan_int s = Some (p, r) \<Longrightarrow> s = p @ r \<and> p \<noteq> []"
  by (auto simp: scan_int_def split: list.splits if_splits)

lemma scan_frac_consumes: "scan_frac s = Some (p, r) \<Longrightarrow> s = p @ r"
  by (auto simp: scan_frac_def split: list.splits if_splits)

lemma scan_sign_consumes: "scan_sign s = (p, r) \<Longrightarrow> s = p @ r"
  by (auto simp: scan_sign_def split: list.splits if_splits)

lemma scan_exp_consumes: "scan_exp s = Some (p, r) \<Longrightarrow> s = p @ r"
  by (auto simp: scan_exp_def split: list.splits if_splits prod.splits dest: scan_sign_consumes)

lemma scan_minus_consumes: "scan_minus s = (p, r) \<Longrightarrow> s = p @ r"
  by (auto simp: scan_minus_def split: list.splits if_splits)

lemma scan_number_consumes:
  assumes "scan_number s = Some (tok, r)"
  shows "s = tok @ r \<and> tok \<noteq> []"
proof -
  from assms obtain sign s0 i s1 f s2 e where
    m: "scan_minus s = (sign, s0)" and i: "scan_int s0 = Some (i, s1)"
    and f: "scan_frac s1 = Some (f, s2)" and e: "scan_exp s2 = Some (e, r)"
    and tok: "tok = sign @ i @ f @ e"
    by (auto simp: scan_number_def split: prod.splits option.splits)
  from scan_minus_consumes [OF m] scan_int_consumes [OF i] scan_frac_consumes [OF f]
    scan_exp_consumes [OF e] tok
  show ?thesis by simp
qed

lemma scan_number_shrinks: "scan_number s = Some (tok, r) \<Longrightarrow> length r < length s"
  using scan_number_consumes [of s tok r] by (cases tok) auto

subsection \<open>The parser consumes its text\<close>

lemma scan_literal_not_string: "scan_literal s = Some (v, r) \<Longrightarrow> \<not> is_string v"
  by (auto simp: scan_literal_def split: if_splits)

lemma scan_literal_shrinks: "scan_literal s = Some (v, r) \<Longrightarrow> length r < length s"
  by (cases s) (auto simp: scan_literal_def split: if_splits)

lemma parse_shrinks:
  "parse_value s = Some (v, r) \<Longrightarrow>
     length r < length s \<and> (\<forall>t. v = JStr t \<longrightarrow> length t + length r < length s)"
  "parse_elements acc1 s1 = Some (v1, r1) \<Longrightarrow> length r1 < length s1 \<and> \<not> is_string v1"
  "parse_members acc2 s2 = Some (v2, r2) \<Longrightarrow> length r2 < length s2 \<and> \<not> is_string v2"
proof (induction s and acc1 s1 and acc2 s2 arbitrary: v r and v1 r1 and v2 r2
    rule: parse_value_parse_elements_parse_members.induct)
  case (1 s)
  from "1.prems" obtain c cs where sk: "skip_ws s = c # cs"
    by (subst (asm) parse_value.simps) (auto split: list.splits)
  from skip_ws_shrinks [OF sk] have cs: "length cs < length s" .
  have len: "length (c # cs) \<le> length s"
    using cs by simp
  consider (obj) "c = 123" | (arr) "c \<noteq> 123" "c = 91" | (str) "c \<noteq> 123" "c \<noteq> 91" "c = 34"
    | (num) "c \<noteq> 123" "c \<noteq> 91" "c \<noteq> 34" "c = 45 \<or> is_digit c"
    | (lit) "c \<noteq> 123" "c \<noteq> 91" "c \<noteq> 34" "\<not> (c = 45 \<or> is_digit c)"
    by blast
  then show ?case
  proof cases
    case obj
    from "1.prems" sk obj obtain d ds where sk2: "skip_ws cs = d # ds"
      and res: "(if d = 125 then Some (JObj [], ds) else parse_members [] (d # ds)) = Some (v, r)"
      by (subst (asm) parse_value.simps) (auto split: list.splits)
    from skip_ws_shrinks [OF sk2] have ds: "length ds < length cs" .
    show ?thesis
    proof (cases "d = 125")
      case True
      with res cs ds show ?thesis by auto
    next
      case False
      with res have "parse_members [] (d # ds) = Some (v, r)" by simp
      from "1.IH"(1) [OF sk obj sk2 False this] ds cs show ?thesis
        by (cases v) auto
    qed
  next
    case arr
    from "1.prems" sk arr obtain d ds where sk2: "skip_ws cs = d # ds"
      and res: "(if d = 93 then Some (JArr [], ds) else parse_elements [] (d # ds)) = Some (v, r)"
      by (subst (asm) parse_value.simps) (auto split: list.splits)
    from skip_ws_shrinks [OF sk2] have ds: "length ds < length cs" .
    show ?thesis
    proof (cases "d = 93")
      case True
      with res cs ds show ?thesis by auto
    next
      case False
      with res have "parse_elements [] (d # ds) = Some (v, r)" by simp
      from "1.IH"(2) [OF sk arr sk2 False this] ds cs show ?thesis
        by (cases v) auto
    qed
  next
    case str
    from "1.prems" sk str obtain t where sb: "string_body cs = Some (t, r)" and v: "v = JStr t"
      by (subst (asm) parse_value.simps) (auto split: option.splits)
    from string_body_shrinks [OF sb] cs v show ?thesis by simp
  next
    case num
    from "1.prems" sk num obtain tok where sn: "scan_number (c # cs) = Some (tok, r)"
      and v: "v = JNum tok"
      by (subst (asm) parse_value.simps) (auto split: option.splits)
    from scan_number_shrinks [OF sn] len v show ?thesis by simp
  next
    case lit
    from "1.prems" sk lit have sl: "scan_literal (c # cs) = Some (v, r)"
      by (subst (asm) parse_value.simps) (auto split: option.splits)
    from scan_literal_shrinks [OF sl] scan_literal_not_string [OF sl] len show ?thesis
      by (cases v) auto
  qed
next
  case (2 acc s)
  from "2.prems" obtain w r' d ds where pv: "parse_value s = Some (w, r')"
    and g: "length r' < length s" and sk: "skip_ws r' = d # ds"
    and res: "(if d = 44 then parse_elements (acc @ [w]) ds
               else if d = 93 then Some (JArr (acc @ [w]), ds) else None) = Some (v1, r1)"
    by (subst (asm) parse_elements.simps) (auto split: option.splits if_splits list.splits)
  from skip_ws_shrinks [OF sk] have ds: "length ds < length r'" .
  show ?case
  proof (cases "d = 44")
    case True
    with res have "parse_elements (acc @ [w]) ds = Some (v1, r1)" by simp
    from "2.IH"(2) [OF pv refl g sk True this] ds g show ?thesis by simp
  next
    case False
    with res ds g show ?thesis by (auto split: if_splits)
  qed
next
  case (3 acc s)
  from "3.prems" obtain s1 k s2 s3 w r' d ds where sk1: "skip_ws s = 34 # s1"
    and sb: "string_body s1 = Some (k, s2)" and sk2: "skip_ws s2 = 58 # s3"
    and pv: "parse_value s3 = Some (w, r')" and g: "length r' < length s3"
    and sk3: "skip_ws r' = d # ds"
    and res: "(if d = 44 then parse_members (set_property acc k w) ds
               else if d = 125 then Some (JObj (set_property acc k w), ds) else None) = Some (v2, r2)"
    by (subst (asm) parse_members.simps) (auto split: option.splits if_splits list.splits)
  from skip_ws_shrinks [OF sk1] string_body_rest_shorter [OF sb] skip_ws_shrinks [OF sk2]
    skip_ws_shrinks [OF sk3] g
  have le: "length ds < length s" by simp
  show ?case
  proof (cases "d = 44")
    case True
    with res have "parse_members (set_property acc k w) ds = Some (v2, r2)" by simp
    from "3.IH"(2) [OF sk1 refl sb refl sk2 refl pv refl g sk3 True this] le show ?thesis by simp
  next
    case False
    with res le show ?thesis by (auto split: if_splits)
  qed
qed

subsection \<open>safeParseJSON returns\<close>

lemma JSON_parse_string_shorter:
  assumes "JSON_parse text = Some (JStr t)"
  shows "length t < length text"
proof -
  from assms obtain r where "parse_value text = Some (JStr t, r)"
    by (auto simp: JSON_parse_def split: option.splits if_splits)
  from parse_shrinks(1) [OF this] show ?thesis by simp
qed

text \<open>
  Claim C10. \<^verbatim>\<open>safeParseJSON\<close> returns on every input, \<^verbatim>\<open>undefined\<close> included, and
  its result is never a string. When the input is an array or an object, the result is
  the input itself. Otherwise, when \<^verbatim>\<open>JSON.parse\<close> rejects the input's text, the
  result is the empty object; when \<^verbatim>\<open>JSON.parse\<close> returns a value that is not a string,
  the result is that value; and when it returns a string, that string is strictly
  shorter than the input's text and the result is the result of \<^verbatim>\<open>safeParseJSON\<close> on
  it. These cases determine the result for every input, by induction on the length of
  the text. In general, a string that \<^verbatim>\<open>JSON.parse\<close> returns is strictly shorter than
  the text it was parsed from.
\<close>

theorem safeParseJSON_total:
  "(\<exists>r. safeParseJSON input = Some r \<and> \<not> is_string r
        \<and> (if input \<noteq> None \<and> is_object (the input) then input = Some r
           else
             (case JSON_parse (ToString_value input) of
                None \<Rightarrow> r = JObj []
              | Some parsed \<Rightarrow>
                 if is_string parsed
                 then length (ToString parsed) < length (ToString_value input)
                      \<and> safeParseJSON (Some parsed) = Some r
                 else r = parsed)))
   \<and> (\<forall>text t. JSON_parse text = Some (JStr t) \<longrightarrow> length t < length text)"
proof (rule conjI)
  show "\<exists>r. safeParseJSON input = Some r \<and> \<not> is_string r
        \<and> (if input \<noteq> None \<and> is_object (the input) then input = Some r
           else
             (case JSON_parse (ToString_value input) of
                None \<Rightarrow> r = JObj []
              | Some parsed \<Rightarrow>
                 if is_string parsed
                 then length (ToString parsed) < length (ToString_value input)
                      \<and> safeParseJSON (Some parsed) = Some r
                 else r = parsed))"
  proof (induction input rule: measure_induct_rule [of "\<lambda>x. length (ToString_value x)"])
    case (less input)
    show ?case
    proof (cases "input \<noteq> None \<and> is_object (the input)")
      case True
      then obtain v where v: "input = Some v" "is_object v" by auto
      then have "safeParseJSON input = Some v"
        by (subst safeParseJSON.simps) simp
      moreover from v have "\<not> is_string v" by (cases v) simp_all
      ultimately show ?thesis using v by simp
    next
      case False
      show ?thesis
      proof (cases "JSON_parse (ToString_value input)")
        case None
        with False have "safeParseJSON input = Some (JObj [])"
          by (subst safeParseJSON.simps) auto
        with None False show ?thesis by auto
      next
        case (Some parsed)
        show ?thesis
        proof (cases "is_string parsed")
          case True
          then obtain t where t: "parsed = JStr t" by (cases parsed) simp_all
          from JSON_parse_string_shorter [of "ToString_value input" t] Some t
          have shorter: "length (ToString parsed) < length (ToString_value input)"
            by simp
          then have "length (ToString_value (Some parsed)) < length (ToString_value input)"
            by (simp add: ToString_value_def)
          from less.IH [OF this] obtain r where r: "safeParseJSON (Some parsed) = Some r"
            "\<not> is_string r"
            by blast
          from False Some True r(1) have "safeParseJSON input = Some r"
            by (subst safeParseJSON.simps) auto
          with r False Some True shorter show ?thesis by auto
        next
          case nostr: False
          with False Some have "safeParseJSON input = Some parsed"
            by (subst safeParseJSON.simps) auto
          with nostr Some False show ?thesis by auto
        qed
      qed
    qed
  qed
next
  show "\<forall>text t. JSON_parse text = Some (JStr t) \<longrightarrow> length t < length text"
    using JSON_parse_string_shorter by blast
qed

subsection \<open>Reading back what JSON.stringify wrote\<close>

lemma delimited_number_end: "delimited rest \<Longrightarrow> number_end rest"
  by (auto simp: delimited_def number_end_def is_digit_def split: list.splits)

lemma digits_extend:
  assumes "dropWhile is_digit xs \<noteq> [] \<or> number_end ys"
  shows "takeWhile is_digit (xs @ ys) = takeWhile is_digit xs
         \<and> dropWhile is_digit (xs @ ys) = dropWhile is_digit xs @ ys"
  using assms
proof (induction xs)
  case Nil
  then show ?case by (cases ys) (auto simp: number_end_def)
next
  case (Cons x xs)
  then show ?case by (cases "is_digit x") auto
qed

lemma scan_int_extend:
  assumes "scan_int s = Some (p, r)" and "r \<noteq> [] \<or> number_end rest"
  shows "scan_int (s @ rest) = Some (p, r @ rest)"
proof -
  from assms(1) obtain d ds where s: "s = d # ds"
    by (cases s) (auto simp: scan_int_def)
  show ?thesis
  proof (cases "d = 48")
    case True
    with assms(1) s show ?thesis by (auto simp: scan_int_def)
  next
    case False
    with assms(1) s have d: "is_digit d" and p: "p = d # takeWhile is_digit ds"
      and r: "r = dropWhile is_digit ds"
      by (auto simp: scan_int_def split: if_splits)
    from assms(2) r have "dropWhile is_digit ds \<noteq> [] \<or> number_end rest" by simp
    from digits_extend [OF this] s False d p r show ?thesis
      by (simp add: scan_int_def)
  qed
qed

lemma scan_frac_extend:
  assumes "scan_frac s = Some (p, r)" and "r \<noteq> [] \<or> number_end rest"
  shows "scan_frac (s @ rest) = Some (p, r @ rest)"
proof (cases s)
  case Nil
  with assms show ?thesis
    by (cases rest) (auto simp: scan_frac_def number_end_def)
next
  case (Cons c cs)
  show ?thesis
  proof (cases "c = 46")
    case True
    with assms(1) Cons have ne: "takeWhile is_digit cs \<noteq> []"
      and p: "p = 46 # takeWhile is_digit cs" and r: "r = dropWhile is_digit cs"
      by (auto simp: scan_frac_def split: if_splits)
    from assms(2) r have "dropWhile is_digit cs \<noteq> [] \<or> number_end rest" by simp
    from digits_extend [OF this] Cons True ne p r show ?thesis
      by (simp add: scan_frac_def)
  next
    case False
    with assms(1) Cons show ?thesis by (auto simp: scan_frac_def)
  qed
qed

lemma scan_exp_extend:
  assumes "scan_exp s = Some (p, r)" and "r \<noteq> [] \<or> number_end rest"
  shows "scan_exp (s @ rest) = Some (p, r @ rest)"
proof (cases s)
  case Nil
  with assms show ?thesis
    by (cases rest) (auto simp: scan_exp_def number_end_def)
next
  case (Cons c cs)
  show ?thesis
  proof (cases "c = 101 \<or> c = 69")
    case True
    obtain sign ds where sg: "scan_sign cs = (sign, ds)" by (cases "scan_sign cs")
    with assms(1) Cons True have ne: "takeWhile is_digit ds \<noteq> []"
      and p: "p = c # sign @ takeWhile is_digit ds" and r: "r = dropWhile is_digit ds"
      by (auto simp: scan_exp_def split: if_splits)
    from ne sg have "cs \<noteq> []" by (auto simp: scan_sign_def)
    with sg have sg': "scan_sign (cs @ rest) = (sign, ds @ rest)"
      by (cases cs) (auto simp: scan_sign_def split: if_splits)
    from assms(2) r have "dropWhile is_digit ds \<noteq> [] \<or> number_end rest" by simp
    from digits_extend [OF this] Cons True ne p r sg' show ?thesis
      by (simp add: scan_exp_def)
  next
    case False
    with assms(1) Cons show ?thesis by (auto simp: scan_exp_def)
  qed
qed

lemma scan_number_first:
  assumes "scan_number tok = Some (p, r)"
  shows "\<exists>c cs. tok = c # cs \<and> (c = 45 \<or> is_digit c)"
proof -
  from assms obtain sign s0 i s1 where
    m: "scan_minus tok = (sign, s0)" and i: "scan_int s0 = Some (i, s1)"
    by (auto simp: scan_number_def split: prod.splits option.splits)
  from i obtain d ds where s0: "s0 = d # ds" "is_digit d"
    by (cases s0) (auto simp: scan_int_def is_digit_def split: if_splits)
  with m show ?thesis
    by (cases tok) (auto simp: scan_minus_def split: if_splits)
qed

lemma scan_number_extend:
  assumes "scan_number tok = Some (tok, [])" and "number_end rest"
  shows "scan_number (tok @ rest) = Some (tok, rest)"
proof -
  from assms(1) obtain sign s0 i s1 f s2 e where
    m: "scan_minus tok = (sign, s0)" and i: "scan_int s0 = Some (i, s1)"
    and f: "scan_frac s1 = Some (f, s2)" and e: "scan_exp s2 = Some (e, [])"
    and tok: "tok = sign @ i @ f @ e"
    by (auto simp: scan_number_def split: prod.splits option.splits)
  from scan_number_first [OF assms(1)] obtain c cs where c: "tok = c # cs" by blast
  with m have m': "scan_minus (tok @ rest) = (sign, s0 @ rest)"
    by (auto simp: scan_minus_def split: if_splits)
  from scan_int_extend [OF i, of rest] assms(2)
  have i': "scan_int (s0 @ rest) = Some (i, s1 @ rest)" by simp
  from scan_frac_extend [OF f, of rest] assms(2)
  have f': "scan_frac (s1 @ rest) = Some (f, s2 @ rest)" by simp
  from scan_exp_extend [OF e, of rest] assms(2)
  have e': "scan_exp (s2 @ rest) = Some (e, rest)" by simp
  from m' i' f' e' tok show ?thesis
    by (simp add: scan_number_def)
qed

lemma stringify_first:
  assumes "wf_json v"
  shows "\<exists>c cs. JSON_stringify v = c # cs \<and> value_start c"
proof (cases v)
  case (JNum tok)
  with assms have "scan_number tok = Some (tok, [])" by simp
  from scan_number_first [OF this] JNum show ?thesis
    by (auto simp: value_start_def is_ws_def is_digit_def)
qed (auto simp: value_start_def is_ws_def QuoteJSONString_def)

lemma skip_ws_value_start: "value_start c \<Longrightarrow> skip_ws (c # cs) = c # cs"
  by (simp add: skip_ws_def value_start_def)

lemma skip_ws_delimiter: "c = 44 \<or> c = 93 \<or> c = 125 \<or> c = 58 \<or> c = 34 \<Longrightarrow> skip_ws (c # cs) = c # cs"
  by (auto simp: skip_ws_def is_ws_def)

lemma set_property_fresh: "k \<notin> fst ` set acc \<Longrightarrow> set_property acc k v = acc @ [(k, v)]"
  by (induction acc) auto

lemma parse_elements_stringify:
  assumes "\<And>v rest. v \<in> set vs \<Longrightarrow> delimited rest \<Longrightarrow>
             parse_value (JSON_stringify v @ rest) = Some (v, rest)"
    and "\<forall>v\<in>set vs. wf_json v" and "vs \<noteq> []"
  shows "parse_elements acc (join_comma (map JSON_stringify vs) @ 93 # rest) =
           Some (JArr (acc @ vs), rest)"
  using assms
proof (induction vs arbitrary: acc)
  case Nil
  then show ?case by simp
next
  case (Cons v vs)
  from Cons.prems(2) have "wf_json v" by simp
  from stringify_first [OF this] obtain c cs where f: "JSON_stringify v = c # cs" by blast
  show ?case
  proof (cases vs)
    case Nil
    have pv: "parse_value (JSON_stringify v @ 93 # rest) = Some (v, 93 # rest)"
      by (rule Cons.prems(1)) (simp_all add: delimited_def)
    have g: "JSON_stringify v \<noteq> []"
      using f by simp
    have "parse_elements acc (JSON_stringify v @ 93 # rest) = Some (JArr (acc @ [v]), rest)"
      by (subst parse_elements.simps) (simp add: pv g skip_ws_delimiter)
    with Nil show ?thesis by simp
  next
    case (Cons w ws)
    define tail where "tail = join_comma (map JSON_stringify (w # ws)) @ 93 # rest"
    have pv: "parse_value (JSON_stringify v @ 44 # tail) = Some (v, 44 # tail)"
      by (rule Cons.prems(1)) (simp_all add: delimited_def)
    have g: "JSON_stringify v \<noteq> []"
      using f by simp
    have ih: "parse_elements (acc @ [v]) tail = Some (JArr ((acc @ [v]) @ w # ws), rest)"
      unfolding tail_def using Cons.IH [of "acc @ [v]"] Cons.prems Cons by simp
    have "parse_elements acc (JSON_stringify v @ 44 # tail) =
            Some (JArr ((acc @ [v]) @ w # ws), rest)"
      by (subst parse_elements.simps) (simp add: pv g skip_ws_delimiter ih)
    with Cons show ?thesis by (simp add: tail_def)
  qed
qed

lemma parse_members_stringify:
  assumes "\<And>p rest. p \<in> set m \<Longrightarrow> delimited rest \<Longrightarrow>
             parse_value (JSON_stringify (snd p) @ rest) = Some (snd p, rest)"
    and "\<forall>p\<in>set m. wf_json (snd p)" and "m \<noteq> []" and "distinct (map fst (acc @ m))"
  shows "parse_members acc
           (join_comma (map (\<lambda>p. member_text (fst p) (JSON_stringify (snd p))) m) @ 125 # rest) =
           Some (JObj (acc @ m), rest)"
  using assms
proof (induction m arbitrary: acc)
  case Nil
  then show ?case by simp
next
  case (Cons p m)
  obtain k v where p: "p = (k, v)" by (cases p)
  from Cons.prems(2) p have "wf_json v" by simp
  from stringify_first [OF this] obtain c cs where f: "JSON_stringify v = c # cs" by blast
  from Cons.prems(4) p have fresh: "k \<notin> fst ` set acc" by auto
  have key: "string_body (quote_body k @ 34 # 58 # JSON_stringify v @ t) =
               Some (k, 58 # JSON_stringify v @ t)" for t
    by (rule string_body_quote_body)
  show ?case
  proof (cases m)
    case Nil
    have pv: "parse_value (JSON_stringify v @ 125 # rest) = Some (v, 125 # rest)"
      using Cons.prems(1) [of p "125 # rest"] p by (simp add: delimited_def)
    have g: "JSON_stringify v \<noteq> []"
      using f by simp
    have "parse_members acc (member_text k (JSON_stringify v) @ 125 # rest) =
            Some (JObj (acc @ [(k, v)]), rest)"
      by (subst parse_members.simps)
         (simp add: member_text_def QuoteJSONString_def skip_ws_delimiter key pv g
            set_property_fresh [OF fresh])
    with Nil p show ?thesis by simp
  next
    case (Cons q qs)
    define tail where
      "tail = join_comma (map (\<lambda>p. member_text (fst p) (JSON_stringify (snd p))) (q # qs))
                @ 125 # rest"
    have pv: "parse_value (JSON_stringify v @ 44 # tail) = Some (v, 44 # tail)"
      using Cons.prems(1) [of p "44 # tail"] p by (simp add: delimited_def)
    have g: "JSON_stringify v \<noteq> []"
      using f by simp
    have d: "distinct (map fst ((acc @ [(k, v)]) @ q # qs))"
      using Cons.prems(4) p Cons by simp
    have ih: "parse_members (acc @ [(k, v)]) tail = Some (JObj ((acc @ [(k, v)]) @ q # qs), rest)"
      unfolding tail_def using Cons.IH [of "acc @ [(k, v)]"] Cons.prems(1,2) Cons d by simp
    have "parse_members acc (member_text k (JSON_stringify v) @ 44 # tail) =
            Some (JObj ((acc @ [(k, v)]) @ q # qs), rest)"
      by (subst parse_members.simps)
         (simp add: member_text_def QuoteJSONString_def skip_ws_delimiter key pv g ih
            set_property_fresh [OF fresh])
    with Cons p show ?thesis by (simp add: tail_def)
  qed
qed

lemma join_comma_first:
  "xs \<noteq> [] \<Longrightarrow> hd xs = c # cs \<Longrightarrow> \<exists>t. join_comma xs = c # t"
  by (cases xs rule: join_comma.cases) auto

lemma parse_value_stringify:
  "wf_json v \<Longrightarrow> delimited rest \<Longrightarrow> parse_value (JSON_stringify v @ rest) = Some (v, rest)"
proof (induction v arbitrary: rest)
  case JNull
  show ?case
    by (subst parse_value.simps)
       (simp add: skip_ws_def is_ws_def is_digit_def scan_literal_def)
next
  case (JBool b)
  show ?case
    by (subst parse_value.simps)
       (simp add: skip_ws_def is_ws_def is_digit_def scan_literal_def)
next
  case (JNum tok)
  then have wf: "scan_number tok = Some (tok, [])" by simp
  from scan_number_first [OF wf] obtain c cs where c: "tok = c # cs" "c = 45 \<or> is_digit c"
    by blast
  then have cls: "c \<noteq> 123" "c \<noteq> 91" "c \<noteq> 34" "\<not> is_ws c"
    by (auto simp: is_digit_def is_ws_def)
  from scan_number_extend [OF wf delimited_number_end [OF JNum.prems(2)]] c
  have sn: "scan_number (c # cs @ rest) = Some (c # cs, rest)" by simp
  show ?case
    by (subst parse_value.simps) (simp add: c cls sn skip_ws_def)
next
  case (JStr s)
  show ?case
    by (subst parse_value.simps)
       (simp add: QuoteJSONString_def skip_ws_delimiter string_body_quote_body)
next
  case (JArr vs)
  have opn: "skip_ws (91 # t) = 91 # t" for t
    by (simp add: skip_ws_def is_ws_def)
  show ?case
  proof (cases vs)
    case Nil
    show ?thesis
      by (subst parse_value.simps) (simp add: Nil opn skip_ws_delimiter)
  next
    case (Cons w ws)
    from JArr.prems have wfs: "\<forall>v\<in>set vs. wf_json v" by simp
    with Cons have "wf_json w" by simp
    from stringify_first [OF this] obtain c cs where f: "JSON_stringify w = c # cs"
      and vs: "value_start c" by blast
    from join_comma_first [of "map JSON_stringify vs" c cs] Cons f
    obtain t where j: "join_comma (map JSON_stringify vs) = c # t" by auto
    have el: "parse_elements [] (join_comma (map JSON_stringify vs) @ 93 # rest) =
                Some (JArr ([] @ vs), rest)"
      by (rule parse_elements_stringify) (use JArr.IH wfs Cons in auto)
    from vs have c93: "c \<noteq> 93" by (simp add: value_start_def)
    show ?thesis
      using el
      by (subst parse_value.simps)
         (simp add: opn j skip_ws_value_start [OF vs] c93)
  qed
next
  case (JObj m)
  have opn: "skip_ws (123 # t) = 123 # t" for t
    by (simp add: skip_ws_def is_ws_def)
  show ?case
  proof (cases m)
    case Nil
    show ?thesis
      by (subst parse_value.simps) (simp add: Nil opn skip_ws_delimiter property_order_def)
  next
    case (Cons q qs)
    from JObj.prems have wfs: "\<forall>p\<in>set m. wf_json (snd p)" and dist: "distinct (map fst m)"
      and ord: "property_order m = m"
      by simp_all
    have "hd (map (\<lambda>p. member_text (fst p) (JSON_stringify (snd p))) m) =
            34 # quote_body (fst q) @ 34 # 58 # JSON_stringify (snd q)"
      using Cons by (simp add: member_text_def QuoteJSONString_def)
    from join_comma_first [OF _ this] Cons
    obtain t where j: "join_comma (map (\<lambda>p. member_text (fst p) (JSON_stringify (snd p))) m) =
        34 # t" by auto
    have ih: "parse_value (JSON_stringify (snd p) @ rest) = Some (snd p, rest)"
      if "p \<in> set m" "delimited rest" for p rest
    proof -
      have "snd p \<in> Basic_BNFs.snds p" by (cases p) simp
      from JObj.IH [OF that(1) this _ that(2)] wfs that(1) show ?thesis by simp
    qed
    have mem: "parse_members []
           (join_comma (map (\<lambda>p. member_text (fst p) (JSON_stringify (snd p))) m) @ 125 # rest) =
           Some (JObj ([] @ m), rest)"
      by (rule parse_members_stringify) (use ih wfs dist Cons in auto)
    show ?thesis
      using mem
      by (subst parse_value.simps) (simp add: ord opn j skip_ws_delimiter)
  qed
qed

lemma JSON_parse_stringify: "wf_json v \<Longrightarrow> JSON_parse (JSON_stringify v) = Some v"
  using parse_value_stringify [of v "[]"]
  by (simp add: JSON_parse_def delimited_def skip_ws_def)

subsection \<open>String-encoded objects\<close>

lemma wf_encode_times: "wf_json v \<Longrightarrow> wf_json (encode_times n v)"
  by (cases n) simp_all

lemma safeParseJSON_encode_times:
  assumes "wf_json v" and "is_object v"
  shows "safeParseJSON (Some (encode_times n v)) = Some v"
proof (induction n)
  case 0
  from assms(2) show ?case by (subst safeParseJSON.simps) simp
next
  case (Suc n)
  have p: "JSON_parse (JSON_stringify (encode_times n v)) = Some (encode_times n v)"
    by (rule JSON_parse_stringify) (rule wf_encode_times [OF assms(1)])
  show ?case
  proof (cases "is_string (encode_times n v)")
    case True
    with p Suc show ?thesis
      by (subst safeParseJSON.simps) (simp add: ToString_value_def)
  next
    case False
    then have "n = 0" by (cases n) simp_all
    with p False show ?thesis
      by (subst safeParseJSON.simps) (simp add: ToString_value_def)
  qed
qed

text \<open>
  Claim C3. For every JSON object, \<^verbatim>\<open>safeParseJSON\<close> of its twice string-encoded text
  (a string containing a string containing the object) is \<^verbatim>\<open>safeParseJSON\<close> of its once
  encoded text, and both are the object itself; the same holds for every number of
  encodings.
\<close>

theorem safeParseJSON_unwraps_encoding:
  assumes "wf_json (JObj m)"
  shows "safeParseJSON (Some (JStr (JSON_stringify (JStr (JSON_stringify (JObj m)))))) =
           safeParseJSON (Some (JStr (JSON_stringify (JObj m))))
         \<and> safeParseJSON (Some (JStr (JSON_stringify (JObj m)))) = Some (JObj m)
         \<and> safeParseJSON (Some (encode_times n (JObj m))) = Some (JObj m)"
proof -
  have o: "is_object (JObj m)" by simp
  from safeParseJSON_encode_times [OF assms o, of 1]
    safeParseJSON_encode_times [OF assms o, of 2]
    safeParseJSON_encode_times [OF assms o, of n]
  show ?thesis by (simp add: numeral_2_eq_2)
qed

subsection \<open>Malformed payloads\<close>

lemma calculateChartData_empty_object:
  "calculateChartData (row\<lparr>result := Some (JObj [])\<rparr>) =
     Inr \<lparr>radarData = [], barData = [], isAiData = False\<rparr>"
  by (simp add: calculateChartData_def get_optional_def truthy_value_def first_truthy_def
        property_order_def)

lemma calculateChartData_string:
  "\<exists>c. calculateChartData (row\<lparr>result := Some (JStr txt)\<rparr>) = Inr c \<and> radarData c = []"
  by (simp add: calculateChartData_def get_optional_def truthy_value_def first_truthy_def
        property_order_def)

text \<open>
  Claim C4. For a text that is not valid JSON, \<^verbatim>\<open>safeParseJSON\<close> returns the empty
  object, so the stored row holds the empty object, and \<^verbatim>\<open>calculateChartData\<close> of that
  row returns, without an exception, a chart whose \<^verbatim>\<open>radarData\<close> is empty. Applied to
  the row that still holds the text itself, it also returns an empty \<^verbatim>\<open>radarData\<close>.
\<close>

theorem malformed_payload_empty_chart:
  assumes "JSON_parse txt = None"
  shows "safeParseJSON (Some (JStr txt)) = Some (JObj [])
         \<and> processRow (row\<lparr>result := Some (JStr txt)\<rparr>) = Some (row\<lparr>result := Some (JObj [])\<rparr>)
         \<and> calculateChartData (row\<lparr>result := Some (JObj [])\<rparr>) =
             Inr \<lparr>radarData = [], barData = [], isAiData = False\<rparr>
         \<and> (\<exists>c. calculateChartData (row\<lparr>result := Some (JStr txt)\<rparr>) = Inr c
               \<and> radarData c = [])"
proof -
  from assms have s: "safeParseJSON (Some (JStr txt)) = Some (JObj [])"
    by (subst safeParseJSON.simps) (simp add: ToString_value_def)
  then have p: "processRow (row\<lparr>result := Some (JStr txt)\<rparr>) =
      Some (row\<lparr>result := Some (JObj [])\<rparr>)"
    by (simp add: processRow_def)
  have e: "calculateChartData (row\<lparr>result := Some (JObj [])\<rparr>) =
             Inr \<lparr>radarData = [], barData = [], isAiData = False\<rparr>"
    by (rule calculateChartData_empty_object)
  have t: "\<exists>c. calculateChartData (row\<lparr>result := Some (JStr txt)\<rparr>) = Inr c
      \<and> radarData c = []"
    by (rule calculateChartData_string)
  from s p e t show ?thesis by (intro conjI)
qed

subsection \<open>Worked examples\<close>

lemma example_wf: "wf_json (JObj example_members)"
  by (simp add: example_members_def js_def property_order_def is_array_index_def
        digits_value_def is_digit_def scan_number_def scan_minus_def scan_int_def
        scan_frac_def scan_exp_def scan_sign_def)

lemma bad_text: "JSON_parse (js ''{bad'') = None"
  by (simp add: JSON_parse_def js_def parse_value.simps parse_members.simps skip_ws_def
        is_ws_def)

lemma quoted_ab: "JSON_parse [34, 97, 98, 34] = Some (JStr [97, 98])"
  by (simp add: JSON_parse_def parse_value.simps skip_ws_def is_ws_def string_body.simps
        next_unit_def cons_unit_def)

lemmas parser_eval =
  JSON_parse_def js_def parse_value.simps parse_elements.simps parse_members.simps
  string_body.simps next_unit_def cons_unit_def unescape_def hex4_def hexval_def
  skip_ws_def is_ws_def is_digit_def scan_literal_def scan_number_def scan_minus_def
  scan_int_def scan_frac_def scan_exp_def scan_sign_def

lemmas printer_eval =
  js_def property_order_def is_array_index_def digits_value_def is_digit_def member_text_def
  QuoteJSONString_def escape_unit_def is_high_def is_low_def hex4_of_def hexdigit_def

lemma parse_nested:
  \<open>JSON_parse (js '' {"a": [1, -2.5e3, true], "b": {"c": null}} '') =
     Some (JObj [(js ''a'', JArr [JNum (js ''1''), JNum (js ''-2.5e3''), JBool True]),
                 (js ''b'', JObj [(js ''c'', JNull)])])\<close>
  by (simp add: parser_eval)

lemma parse_duplicate_key:
  \<open>JSON_parse (js ''{"a":1,"b":2,"a":3}'') =
     Some (JObj [(js ''a'', JNum (js ''3'')), (js ''b'', JNum (js ''2''))])\<close>
  by (simp add: parser_eval)

lemma parse_escapes:
  "JSON_parse ([34, 92, 110, 92, 117] @ js ''00E9'' @ [92, 34, 34]) = Some (JStr [10, 233, 34])"
  by (simp add: parser_eval)

lemma parse_rejects:
  "JSON_parse (js ''[1,]'') = None"
  "JSON_parse (js ''01'') = None"
  "JSON_parse (js ''1.'') = None"
  "JSON_parse (js ''nul'') = None"
  "JSON_parse (js ''true false'') = None"
  "JSON_parse [] = None"
  "JSON_parse [34, 9, 34] = None"
  \<open>JSON_parse (js ''{"a" 1}'') = None\<close>
  \<open>JSON_parse (js ''{a:1}'') = None\<close>
  by (simp_all add: parser_eval)

lemma stringify_example:
  \<open>JSON_stringify (JObj example_members) =
     js ''{"0":[null,true],"score":-12.5e+3,"note":"'' @ [92, 34] @ js ''x'' @ [92, 110, 92, 117]
       @ js ''d83d"}''\<close>
  by (simp add: example_members_def printer_eval)

lemma unwrap_once:
  \<open>safeParseJSON (Some (JStr ([34, 123, 92, 34] @ js ''a'' @ [92, 34] @ js '':1}'' @ [34]))) =
     Some (JObj [(js ''a'', JNum (js ''1''))])\<close>
  by (simp add: safeParseJSON.simps ToString_value_def parser_eval)

lemma unwrap_primitives:
  "safeParseJSON None = Some (JObj [])"
  "safeParseJSON (Some JNull) = Some JNull"
  "safeParseJSON (Some (JBool True)) = Some (JBool True)"
  "safeParseJSON (Some (JNum (js ''42''))) = Some (JNum (js ''42''))"
  "safeParseJSON (Some (JStr (js ''oops''))) = Some (JObj [])"
  "safeParseJSON (Some (JStr [])) = Some (JObj [])"
  "safeParseJSON (Some (JArr [JNull])) = Some (JArr [JNull])"
  by (simp_all add: safeParseJSON.simps ToString_value_def parser_eval)

lemma chart_raw_answers:
  "calculateChartData (example_row\<lparr>result := Some raw_answers\<rparr>) =
     Inr \<lparr>radarData = [\<lparr>subject = js ''Foco'', fullSubject = Some (js ''Foco''),
                          A = Average (Some 9) 2, fullMark = 5\<rparr>],
          barData = [\<lparr>name = js ''Lider'', bar_value = Tallied (Tally 1)\<rparr>],
          isAiData = False\<rparr>"
  by (simp add: calculateChartData_def raw_answers_def get_optional_def get_property_def
        truthy_value_def first_truthy_def question_step_def add_score_def add_count_def
        tally_tag_def parseInt10_def parseInt_isNaN_def scan_sign_def is_js_space_def
        object_prototype_keys_def printer_eval Let_def)

lemma chart_ai_result:
  "calculateChartData (example_row\<lparr>result := Some ai_result\<rparr>) =
     Inr \<lparr>radarData = [\<lparr>subject = js ''visao de futuro'', fullSubject = None,
                          A = Number (js ''70''), fullMark = 100\<rparr>],
          barData = [\<lparr>name = js ''Lider'', bar_value = Number (js ''80'')\<rparr>,
                     \<lparr>name = js ''Analitico'', bar_value = Zero\<rparr>],
          isAiData = True\<rparr>"
  by (simp add: calculateChartData_def ai_result_def get_optional_def truthy_value_def
        sections_def section_entries_def entries_def number_or_zero_def number_is_zero_def
        js_def property_order_def is_array_index_def digits_value_def is_digit_def)

theorem safeParseJSON_total_witness:
  "safeParseJSON (Some (JArr [JNum (js ''1''), JNum (js ''2'')])) =
     Some (JArr [JNum (js ''1''), JNum (js ''2'')])
   \<and> safeParseJSON None = Some (JObj [])
   \<and> safeParseJSON (Some (JNum (js ''42''))) = Some (JNum (js ''42''))
   \<and> safeParseJSON (Some (JStr [34, 97, 98, 34])) = Some (JObj [])
   \<and> JSON_parse [34, 97, 98, 34] = Some (JStr [97, 98])
   \<and> length [97, 98 :: nat] < length [34, 97, 98, 34 :: nat]"
proof -
  have a: "safeParseJSON (Some (JArr [JNum (js ''1''), JNum (js ''2'')])) =
     Some (JArr [JNum (js ''1''), JNum (js ''2'')])"
    using safeParseJSON_total [of "Some (JArr [JNum (js ''1''), JNum (js ''2'')])",
        THEN conjunct1]
    by auto
  have u: "JSON_parse (ToString_value None) = None"
    by (simp add: ToString_value_def parser_eval)
  have b: "safeParseJSON None = Some (JObj [])"
    using safeParseJSON_total [of None, THEN conjunct1] u by auto
  have n: "JSON_parse (ToString_value (Some (JNum (js ''42'')))) = Some (JNum (js ''42''))"
    by (simp add: ToString_value_def parser_eval)
  have c: "safeParseJSON (Some (JNum (js ''42''))) = Some (JNum (js ''42''))"
    using safeParseJSON_total [of "Some (JNum (js ''42''))", THEN conjunct1] n by auto
  have i: "JSON_parse (ToString_value (Some (JStr [97, 98]))) = None"
    by (simp add: ToString_value_def parser_eval)
  have inner: "safeParseJSON (Some (JStr [97, 98])) = Some (JObj [])"
    using safeParseJSON_total [of "Some (JStr [97, 98])", THEN conjunct1] i by auto
  have o: "JSON_parse (ToString_value (Some (JStr [34, 97, 98, 34]))) = Some (JStr [97, 98])"
    by (simp add: ToString_value_def quoted_ab)
  have d: "safeParseJSON (Some (JStr [34, 97, 98, 34])) = Some (JObj [])"
    using safeParseJSON_total [of "Some (JStr [34, 97, 98, 34])", THEN conjunct1] o inner
    by auto
  note e = safeParseJSON_total [of None, THEN conjunct2, THEN spec, THEN spec, THEN mp,
      OF quoted_ab]
  from a b c d quoted_ab e show ?thesis by (intro conjI)
qed

theorem safeParseJSON_unwraps_encoding_witness:
  "wf_json (JObj example_members)
   \<and> safeParseJSON
         (Some (JStr (JSON_stringify (JStr (JSON_stringify (JObj example_members)))))) =
       Some (JObj example_members)"
proof -
  note t = safeParseJSON_unwraps_encoding [OF example_wf, of 2]
  have a: "safeParseJSON
             (Some (JStr (JSON_stringify (JStr (JSON_stringify (JObj example_members)))))) =
             safeParseJSON (Some (JStr (JSON_stringify (JObj example_members))))"
    by (rule t [THEN conjunct1])
  have b: "safeParseJSON (Some (JStr (JSON_stringify (JObj example_members)))) =
             Some (JObj example_members)"
    by (rule t [THEN conjunct2, THEN conjunct1])
  from a b have "safeParseJSON
      (Some (JStr (JSON_stringify (JStr (JSON_stringify (JObj example_members)))))) =
       Some (JObj example_members)"
    by (rule trans)
  with example_wf show ?thesis by (rule conjI)
qed

theorem malformed_payload_empty_chart_witness:
  "JSON_parse (js ''{bad'') = None
   \<and> processRow example_row = Some (example_row\<lparr>result := Some (JObj [])\<rparr>)
   \<and> calculateChartData (example_row\<lparr>result := Some (JObj [])\<rparr>) =
       Inr \<lparr>radarData = [], barData = [], isAiData = False\<rparr>"
proof -
  have r: "example_row\<lparr>result := Some (JStr (js ''{bad''))\<rparr> = example_row"
    by (simp add: example_row_def)
  note t = malformed_payload_empty_chart [OF bad_text, of example_row, unfolded r]
  from bad_text t [THEN conjunct2, THEN conjunct1]
    t [THEN conjunct2, THEN conjunct2, THEN conjunct1]
  show ?thesis by (intro conjI)
qed

end
